theory Spec2Isabelle
  imports Complex_Main
begin

section \<open>JavaScript values\<close>

text \<open>
  The product service is an Express application whose handlers work on loosely typed
  request data. The values that reach the handlers from a JSON body are \<^verbatim>\<open>null\<close>, booleans,
  numbers and strings; a key that is absent reads as \<^verbatim>\<open>undefined\<close>. Arrays and nested objects
  as field values are outside this model.

  A finite number is an exact rational: rounding to 53 bits, overflow to an infinity,
  underflow to zero and the sign of zero are not modelled. The infinities stand for the
  values that the literal \<^verbatim>\<open>Infinity\<close> denotes in \<^verbatim>\<open>Number\<close> and \<^verbatim>\<open>parseFloat\<close>.
  Strings are lists of 8-bit characters; white space and letter case are those of ASCII.
\<close>

datatype number = NaN | PInf | NInf | Fin rat

datatype jsval = JUndefined | JNull | JBool bool | JNum number | JStr string

subsection \<open>Characters and strings\<close>

definition code :: "char \<Rightarrow> nat" where
  "code c = of_char c"

definition isWhiteSpace :: "char \<Rightarrow> bool" where
  "isWhiteSpace c = (code c = 9 \<or> code c = 10 \<or> code c = 11 \<or> code c = 12 \<or> code c = 13 \<or> code c = 32)"

definition isDigit :: "char \<Rightarrow> bool" where
  "isDigit c = (48 \<le> code c \<and> code c \<le> 57)"

definition digitVal :: "char \<Rightarrow> nat" where
  "digitVal c = code c - 48"

definition digitChar :: "nat \<Rightarrow> char" where
  "digitChar d = ''0123456789'' ! d"

definition lowerChar :: "char \<Rightarrow> char" where
  "lowerChar c =
     (case map_of (zip ''ABCDEFGHIJKLMNOPQRSTUVWXYZ'' ''abcdefghijklmnopqrstuvwxyz'') c of
        Some l \<Rightarrow> l
      | None \<Rightarrow> c)"

definition toLowerCase :: "string \<Rightarrow> string" where
  "toLowerCase s = map lowerChar s"

definition trimStart :: "string \<Rightarrow> string" where
  "trimStart s = dropWhile isWhiteSpace s"

definition trimEnd :: "string \<Rightarrow> string" where
  "trimEnd s = rev (dropWhile isWhiteSpace (rev s))"

definition trim :: "string \<Rightarrow> string" where
  "trim s = trimEnd (trimStart s)"

definition startsWith :: "string \<Rightarrow> string \<Rightarrow> bool" where
  "startsWith s p = (take (length p) s = p)"

text \<open>\<^verbatim>\<open>s.includes(sub)\<close>: \<open>sub\<close> occurs in \<open>s\<close> as a contiguous run.\<close>

fun includes_str :: "string \<Rightarrow> string \<Rightarrow> bool" where
  "includes_str [] sub = (sub = [])"
| "includes_str (c # cs) sub = (startsWith (c # cs) sub \<or> includes_str cs sub)"

text \<open>The order of \<^verbatim>\<open><\<close> on two strings: lexicographic on the character codes.\<close>

fun str_lt :: "string \<Rightarrow> string \<Rightarrow> bool" where
  "str_lt [] [] = False"
| "str_lt [] (b # bs) = True"
| "str_lt (a # as) [] = False"
| "str_lt (a # as) (b # bs) = (code a < code b \<or> (a = b \<and> str_lt as bs))"

subsection \<open>Decimal digits\<close>

definition digitsVal :: "string \<Rightarrow> nat" where
  "digitsVal ds = foldl (\<lambda>a c. 10 * a + digitVal c) 0 ds"

text \<open>The decimal digits of a natural number, most significant first.\<close>

fun decimal :: "nat \<Rightarrow> string" where
  "decimal n = (if n < 10 then [digitChar n] else decimal (n div 10) @ [digitChar (n mod 10)])"

declare decimal.simps [simp del]

subsection \<open>\<^verbatim>\<open>parseInt(string, 10)\<close>\<close>

text \<open>
  Leading white space is skipped, one sign is read, and the longest run of decimal
  digits that follows is the value; with no digit there the result is \<^verbatim>\<open>NaN\<close>, which is
  \<open>None\<close> here. What follows the digits is ignored. At radix 10 no \<^verbatim>\<open>0x\<close> prefix is read.
\<close>

definition parseInt_str :: "string \<Rightarrow> int option" where
  "parseInt_str s =
     (let s1 = trimStart s;
          neg = (s1 \<noteq> [] \<and> hd s1 = CHR ''-'');
          s2 = (if s1 \<noteq> [] \<and> (hd s1 = CHR ''+'' \<or> hd s1 = CHR ''-'') then tl s1 else s1);
          ds = takeWhile isDigit s2
      in if ds = [] then None
         else Some ((if neg then - 1 else 1) * int (digitsVal ds)))"

subsection \<open>Numbers\<close>

definition isInteger :: "number \<Rightarrow> bool" where
  "isInteger x = (case x of Fin r \<Rightarrow> of_int \<lfloor>r\<rfloor> = r | _ \<Rightarrow> False)"

text \<open>The relational operators on numbers: every comparison with \<^verbatim>\<open>NaN\<close> is false.\<close>

fun num_lt :: "number \<Rightarrow> number \<Rightarrow> bool" where
  "num_lt NaN y = False"
| "num_lt x NaN = False"
| "num_lt PInf y = False"
| "num_lt x NInf = False"
| "num_lt NInf y = True"
| "num_lt x PInf = True"
| "num_lt (Fin a) (Fin b) = (a < b)"

definition num_gt :: "number \<Rightarrow> number \<Rightarrow> bool" where
  "num_gt x y = num_lt y x"

definition num_le :: "number \<Rightarrow> number \<Rightarrow> bool" where
  "num_le x y = (x \<noteq> NaN \<and> y \<noteq> NaN \<and> \<not> num_lt y x)"

definition num_ge :: "number \<Rightarrow> number \<Rightarrow> bool" where
  "num_ge x y = num_le y x"

fun num_add :: "number \<Rightarrow> number \<Rightarrow> number" where
  "num_add NaN y = NaN"
| "num_add x NaN = NaN"
| "num_add PInf NInf = NaN"
| "num_add NInf PInf = NaN"
| "num_add PInf y = PInf"
| "num_add NInf y = NInf"
| "num_add x PInf = PInf"
| "num_add x NInf = NInf"
| "num_add (Fin a) (Fin b) = Fin (a + b)"

fun num_neg :: "number \<Rightarrow> number" where
  "num_neg NaN = NaN"
| "num_neg PInf = NInf"
| "num_neg NInf = PInf"
| "num_neg (Fin a) = Fin (- a)"

definition num_sub :: "number \<Rightarrow> number \<Rightarrow> number" where
  "num_sub x y = num_add x (num_neg y)"

text \<open>The number a \<^verbatim>\<open>parseInt\<close> result stands for.\<close>

definition num_of_parse :: "int option \<Rightarrow> number" where
  "num_of_parse r = (case r of None \<Rightarrow> NaN | Some i \<Rightarrow> Fin (of_int i))"

subsection \<open>\<^verbatim>\<open>String(value)\<close>\<close>

text \<open>
  A number prints as ECMAScript's \<^verbatim>\<open>Number::toString\<close> lays its digits out: with \<open>n\<close> the
  position of the decimal point, plain notation for \<open>-6 < n \<le> 21\<close> and exponent notation
  otherwise. The digits are those of the exact value, at most 17 of them after an
  integer part.
\<close>

definition stripTrailingZeros :: "string \<Rightarrow> string" where
  "stripTrailingZeros ds = rev (dropWhile (\<lambda>c. c = CHR ''0'') (rev ds))"

definition exponential :: "string \<Rightarrow> int \<Rightarrow> string" where
  "exponential ds e =
     (hd ds # (if tl ds = [] then [] else CHR ''.'' # tl ds))
       @ ''e'' @ (if e < 0 then ''-'' else ''+'') @ decimal (nat \<bar>e\<bar>)"

fun fracDigits :: "nat \<Rightarrow> rat \<Rightarrow> string" where
  "fracDigits 0 y = []"
| "fracDigits (Suc f) y =
     (if y = 0 then []
      else (let d = nat \<lfloor>10 * y\<rfloor> in digitChar d # fracDigits f (10 * y - of_nat d)))"

definition integerToString :: "nat \<Rightarrow> string" where
  "integerToString i =
     (let ds = decimal i
      in if length ds \<le> 21 then ds
         else exponential (stripTrailingZeros ds) (int (length ds) - 1))"

text \<open>The zeros between the decimal point and the first significant digit of \<open>0 < x < 1\<close>.\<close>

definition leadingZeros :: "rat \<Rightarrow> nat" where
  "leadingZeros x =
     (case quotient_of x of (p, q) \<Rightarrow>
        (let a = length (decimal (nat p)); b = length (decimal (nat q))
         in if q \<le> p * 10 ^ (b - a) then b - a - 1 else b - a))"

definition positiveToString :: "rat \<Rightarrow> string" where
  "positiveToString x =
     (let ip = nat \<lfloor>x\<rfloor>; fp = x - of_nat ip
      in if fp = 0 then integerToString ip
         else if 0 < ip then
           (let ds = decimal ip; fs = fracDigits (17 - length ds) fp
            in if fs = [] then integerToString ip else ds @ ''.'' @ fs)
         else
           (let z = leadingZeros x; sig = fracDigits 17 (x * 10 ^ z)
            in if z < 6 then ''0.'' @ replicate z (CHR ''0'') @ sig
               else exponential sig (- int z - 1)))"

fun numberToString :: "number \<Rightarrow> string" where
  "numberToString NaN = ''NaN''"
| "numberToString PInf = ''Infinity''"
| "numberToString NInf = ''-Infinity''"
| "numberToString (Fin r) =
     (if r = 0 then ''0''
      else if r < 0 then ''-'' @ positiveToString (- r)
      else positiveToString r)"

fun ToString :: "jsval \<Rightarrow> string" where
  "ToString JUndefined = ''undefined''"
| "ToString JNull = ''null''"
| "ToString (JBool b) = (if b then ''true'' else ''false'')"
| "ToString (JNum x) = numberToString x"
| "ToString (JStr s) = s"

text \<open>\<^verbatim>\<open>parseInt(value, 10)\<close> reads the string form of its argument.\<close>

definition parseInt :: "jsval \<Rightarrow> int option" where
  "parseInt v = parseInt_str (ToString v)"

subsection \<open>\<^verbatim>\<open>Number(value)\<close> and \<^verbatim>\<open>parseFloat(value)\<close>\<close>

definition signSplit :: "string \<Rightarrow> bool \<times> string" where
  "signSplit s =
     (case s of
        [] \<Rightarrow> (False, [])
      | c # r \<Rightarrow>
          if c = CHR ''-'' then (True, r)
          else if c = CHR ''+'' then (False, r)
          else (False, s))"

definition pow10 :: "int \<Rightarrow> rat" where
  "pow10 e = (if 0 \<le> e then 10 ^ nat e else 1 / 10 ^ nat (- e))"

text \<open>The value of sign, integer digits, fraction digits and exponent.\<close>

definition decimalValue :: "bool \<Rightarrow> string \<Rightarrow> string \<Rightarrow> int \<Rightarrow> rat" where
  "decimalValue neg ip fp e =
     (if neg then - 1 else 1)
       * (of_nat (digitsVal ip) + of_nat (digitsVal fp) / 10 ^ length fp) * pow10 e"

text \<open>
  An unsigned decimal literal that fills the whole string: digits, an optional fraction,
  an optional exponent, with at least one digit before the exponent.
\<close>

definition unsignedDecimal :: "bool \<Rightarrow> string \<Rightarrow> number" where
  "unsignedDecimal neg u =
     (let ip = takeWhile isDigit u;
          r1 = dropWhile isDigit u;
          dot = (r1 \<noteq> [] \<and> hd r1 = CHR ''.'');
          fp = (if dot then takeWhile isDigit (tl r1) else []);
          r2 = (if dot then dropWhile isDigit (tl r1) else r1)
      in if ip = [] \<and> fp = [] then NaN
         else if r2 = [] then Fin (decimalValue neg ip fp 0)
         else if hd r2 = CHR ''e'' \<or> hd r2 = CHR ''E'' then
           (case signSplit (tl r2) of
              (eneg, ed) \<Rightarrow>
                if ed \<noteq> [] \<and> list_all isDigit ed
                then Fin (decimalValue neg ip fp ((if eneg then - 1 else 1) * int (digitsVal ed)))
                else NaN)
         else NaN)"

definition radixDigit :: "nat \<Rightarrow> char \<Rightarrow> nat option" where
  "radixDigit r c =
     (let v = (if isDigit c then digitVal c
               else if 97 \<le> code c \<and> code c \<le> 102 then code c - 87
               else if 65 \<le> code c \<and> code c \<le> 70 then code c - 55
               else 16)
      in if v < r then Some v else None)"

definition radixValue :: "nat \<Rightarrow> string \<Rightarrow> number" where
  "radixValue r ds =
     (if ds \<noteq> [] \<and> list_all (\<lambda>c. radixDigit r c \<noteq> None) ds
      then Fin (of_nat (foldl (\<lambda>a c. r * a + the (radixDigit r c)) 0 ds))
      else NaN)"

text \<open>The literals \<^verbatim>\<open>0x\<close>, \<^verbatim>\<open>0o\<close> and \<^verbatim>\<open>0b\<close>, which take no sign.\<close>

definition radixLiteral :: "string \<Rightarrow> number option" where
  "radixLiteral t =
     (case t of
        c0 # c1 # ds \<Rightarrow>
          if c0 \<noteq> CHR ''0'' then None
          else if c1 = CHR ''x'' \<or> c1 = CHR ''X'' then Some (radixValue 16 ds)
          else if c1 = CHR ''o'' \<or> c1 = CHR ''O'' then Some (radixValue 8 ds)
          else if c1 = CHR ''b'' \<or> c1 = CHR ''B'' then Some (radixValue 2 ds)
          else None
      | _ \<Rightarrow> None)"

text \<open>
  \<^verbatim>\<open>Number(string)\<close>: the string is trimmed at both ends; the empty string is 0; anything
  that is not one numeric literal from end to end is \<^verbatim>\<open>NaN\<close>.
\<close>

definition StringToNumber :: "string \<Rightarrow> number" where
  "StringToNumber s =
     (let t = trim s
      in if t = [] then Fin 0
         else case radixLiteral t of
                Some v \<Rightarrow> v
              | None \<Rightarrow>
                  (case signSplit t of
                     (neg, u) \<Rightarrow>
                       if u = ''Infinity'' then (if neg then NInf else PInf)
                       else unsignedDecimal neg u))"

fun ToNumber :: "jsval \<Rightarrow> number" where
  "ToNumber JUndefined = NaN"
| "ToNumber JNull = Fin 0"
| "ToNumber (JBool b) = (if b then Fin 1 else Fin 0)"
| "ToNumber (JNum x) = x"
| "ToNumber (JStr s) = StringToNumber s"

definition isNaN :: "jsval \<Rightarrow> bool" where
  "isNaN v = (ToNumber v = NaN)"

text \<open>
  \<^verbatim>\<open>parseFloat(string)\<close>: leading white space is skipped and the longest prefix that is a
  decimal literal is the value; what follows it is ignored.
\<close>

definition parseFloat_str :: "string \<Rightarrow> number" where
  "parseFloat_str s =
     (case signSplit (trimStart s) of
        (neg, u) \<Rightarrow>
          if startsWith u ''Infinity'' then (if neg then NInf else PInf)
          else
            (let ip = takeWhile isDigit u;
                 r1 = dropWhile isDigit u;
                 dot = (r1 \<noteq> [] \<and> hd r1 = CHR ''.'');
                 fp = (if dot then takeWhile isDigit (tl r1) else []);
                 r2 = (if dot then dropWhile isDigit (tl r1) else r1)
             in if ip = [] \<and> fp = [] then NaN
                else if r2 \<noteq> [] \<and> (hd r2 = CHR ''e'' \<or> hd r2 = CHR ''E'') then
                  (case signSplit (tl r2) of
                     (eneg, r3) \<Rightarrow>
                       (let ed = takeWhile isDigit r3
                        in if ed = [] then Fin (decimalValue neg ip fp 0)
                           else Fin (decimalValue neg ip fp
                                  ((if eneg then - 1 else 1) * int (digitsVal ed)))))
                else Fin (decimalValue neg ip fp 0)))"

definition parseFloat :: "jsval \<Rightarrow> number" where
  "parseFloat v = parseFloat_str (ToString v)"

subsection \<open>Truthiness, equality and order of values\<close>

fun truthy :: "jsval \<Rightarrow> bool" where
  "truthy JUndefined = False"
| "truthy JNull = False"
| "truthy (JBool b) = b"
| "truthy (JNum x) = (x \<noteq> NaN \<and> x \<noteq> Fin 0)"
| "truthy (JStr s) = (s \<noteq> [])"

text \<open>Strict equality \<^verbatim>\<open>===\<close>: the same type and the same value; \<^verbatim>\<open>NaN\<close> equals nothing.\<close>

definition strict_eq :: "jsval \<Rightarrow> jsval \<Rightarrow> bool" where
  "strict_eq a b = (a = b \<and> a \<noteq> JNum NaN)"

text \<open>
  \<^verbatim>\<open>a < b\<close> on two values: two strings are compared as strings, any other pair as
  numbers.
\<close>

fun js_lt :: "jsval \<Rightarrow> jsval \<Rightarrow> bool" where
  "js_lt (JStr a) (JStr b) = str_lt a b"
| "js_lt a b = num_lt (ToNumber a) (ToNumber b)"

definition js_gt :: "jsval \<Rightarrow> jsval \<Rightarrow> bool" where
  "js_gt a b = js_lt b a"

section \<open>The catalog\<close>

text \<open>
  A product as the handlers store it. \<open>name\<close> and \<open>category\<close> are always strings and
  \<open>price\<close> and \<open>stock\<close> always numbers, because every write converts them; \<open>id\<close>,
  \<open>description\<close> and \<open>createdAt\<close> can hold any value, because the partial update merges
  the request body over the record as it is. The seed records have no \<open>updatedAt\<close> key.
  Keys other than these eight are never read by any handler and are left out.
\<close>

record product =
  p_id :: jsval
  p_name :: string
  p_category :: string
  p_price :: number
  p_stock :: number
  p_description :: jsval
  p_createdAt :: jsval
  p_updatedAt :: jsval

text \<open>The request body, \<^verbatim>\<open>req.body\<close>: an absent key reads as \<open>JUndefined\<close>.\<close>

record body =
  b_id :: jsval
  b_name :: jsval
  b_category :: jsval
  b_price :: jsval
  b_stock :: jsval
  b_description :: jsval
  b_createdAt :: jsval
  b_operation :: jsval
  b_quantity :: jsval

definition emptyBody :: body where
  "emptyBody =
     \<lparr>b_id = JUndefined, b_name = JUndefined, b_category = JUndefined, b_price = JUndefined,
      b_stock = JUndefined, b_description = JUndefined, b_createdAt = JUndefined,
      b_operation = JUndefined, b_quantity = JUndefined\<rparr>"

text \<open>The module state: the array \<^verbatim>\<open>products\<close> and the counter \<^verbatim>\<open>currentId\<close>.\<close>

record catalog =
  products :: "product list"
  currentId :: int

definition seedProducts :: "product list" where
  "seedProducts =
     [\<lparr>p_id = JNum (Fin 1), p_name = ''Laptop'', p_category = ''Electronics'',
       p_price = Fin (99999 / 100), p_stock = Fin 15,
       p_description = JStr ''High-performance laptop with 16GB RAM'',
       p_createdAt = JStr ''2024-01-15T10:30:00.000Z'', p_updatedAt = JUndefined\<rparr>,
      \<lparr>p_id = JNum (Fin 2), p_name = ''Smartphone'', p_category = ''Electronics'',
       p_price = Fin (69999 / 100), p_stock = Fin 25,
       p_description = JStr ''Latest smartphone with 128GB storage'',
       p_createdAt = JStr ''2024-01-20T14:45:00.000Z'', p_updatedAt = JUndefined\<rparr>,
      \<lparr>p_id = JNum (Fin 3), p_name = ''Coffee Maker'', p_category = ''Home Appliances'',
       p_price = Fin (8999 / 100), p_stock = Fin 40,
       p_description = JStr ''Programmable coffee maker with thermal carafe'',
       p_createdAt = JStr ''2024-01-25T09:15:00.000Z'', p_updatedAt = JUndefined\<rparr>,
      \<lparr>p_id = JNum (Fin 4), p_name = ''Desk Chair'', p_category = ''Furniture'',
       p_price = Fin (24999 / 100), p_stock = Fin 8,
       p_description = JStr ''Ergonomic office chair with lumbar support'',
       p_createdAt = JStr ''2024-02-01T11:20:00.000Z'', p_updatedAt = JUndefined\<rparr>]"

text \<open>\<^verbatim>\<open>Math.max(...xs)\<close>: minus infinity for no argument, \<^verbatim>\<open>NaN\<close> when an argument is.\<close>

fun mathMax :: "number list \<Rightarrow> number" where
  "mathMax [] = NInf"
| "mathMax (x # xs) =
     (let m = mathMax xs
      in if x = NaN \<or> m = NaN then NaN else if num_lt x m then m else x)"

text \<open>
  \<^verbatim>\<open>currentId = products.length > 0 ? Math.max(...products.map(p => p.id)) + 1 : 1\<close>, the
  value of the counter when the module is loaded.
\<close>

definition initialId :: "product list \<Rightarrow> number" where
  "initialId ps =
     (if 0 < length ps then num_add (mathMax (map (\<lambda>p. ToNumber (p_id p)) ps)) (Fin 1)
      else Fin 1)"

text \<open>The state after loading: the counter is \<open>initialId seedProducts\<close>, which is 5.\<close>

definition seed :: catalog where
  "seed = \<lparr>products = seedProducts, currentId = 5\<rparr>"

text \<open>\<^verbatim>\<open>generateId = () => currentId++\<close>\<close>

definition generateId :: "catalog \<Rightarrow> int \<times> catalog" where
  "generateId s = (currentId s, s\<lparr>currentId := currentId s + 1\<rparr>)"

text \<open>
  What a handler answers when it does not answer with a record: the status and the
  message of each \<^verbatim>\<open>res.status(...).json(...)\<close>, and \<open>InternalError\<close> for the 500 of the
  error middleware when a handler throws a \<^verbatim>\<open>TypeError\<close>.
\<close>

datatype failure =
    ValidationFailed "string list"
  | InvalidProductId
  | ProductNotFound
  | NameExists
  | NameExistsForAnother
  | OperationAndQuantityRequired
  | QuantityNotPositive
  | InsufficientStock number number
  | InvalidOperation
  | InternalError

subsection \<open>Validation middleware\<close>

text \<open>
  \<^verbatim>\<open>if (!v || v.trim() === '') errors.push(msg)\<close>: a truthy value that is not a string has no
  \<^verbatim>\<open>trim\<close>, and the call throws.
\<close>

definition requiredText :: "jsval \<Rightarrow> string \<Rightarrow> failure + string list" where
  "requiredText v msg =
     (if \<not> truthy v then Inr [msg]
      else case v of
             JStr s \<Rightarrow> Inr (if trim s = [] then [msg] else [])
           | _ \<Rightarrow> Inl InternalError)"

definition priceErrors :: "jsval \<Rightarrow> string list" where
  "priceErrors price =
     (if isNaN price \<or> num_lt (ToNumber price) (Fin 0)
      then [''Price must be a positive number''] else [])"

definition stockErrors :: "jsval \<Rightarrow> string list" where
  "stockErrors stock =
     (if isNaN stock \<or> \<not> isInteger (ToNumber stock) \<or> num_lt (ToNumber stock) (Fin 0)
      then [''Stock must be a non-negative integer''] else [])"

text \<open>\<open>None\<close> is the call of \<^verbatim>\<open>next()\<close>.\<close>

definition validateProduct :: "body \<Rightarrow> failure option" where
  "validateProduct b =
     (case requiredText (b_name b) ''Product name is required'' of
        Inl e \<Rightarrow> Some e
      | Inr e1 \<Rightarrow>
     (case requiredText (b_category b) ''Category is required'' of
        Inl e \<Rightarrow> Some e
      | Inr e2 \<Rightarrow>
          (let e3 = (if b_price b = JUndefined \<or> b_price b = JNull then [''Price is required'']
                     else priceErrors (b_price b));
               e4 = (if b_stock b = JUndefined \<or> b_stock b = JNull
                     then [''Stock quantity is required'']
                     else stockErrors (b_stock b));
               errors = e1 @ e2 @ e3 @ e4
           in if errors \<noteq> [] then Some (ValidationFailed errors) else None)))"

definition validateProductUpdate :: "body \<Rightarrow> failure option" where
  "validateProductUpdate b =
     (let e1 = (if b_price b \<noteq> JUndefined then priceErrors (b_price b) else []);
          e2 = (if b_stock b \<noteq> JUndefined then stockErrors (b_stock b) else []);
          errors = e1 @ e2
      in if errors \<noteq> [] then Some (ValidationFailed errors) else None)"

subsection \<open>Handlers\<close>

text \<open>\<^verbatim>\<open>p.id === id\<close> for an \<open>id\<close> that \<^verbatim>\<open>parseInt\<close> returned.\<close>

definition hasId :: "int \<Rightarrow> product \<Rightarrow> bool" where
  "hasId i p = (p_id p = JNum (Fin (of_int i)))"

fun findIndex :: "('a \<Rightarrow> bool) \<Rightarrow> 'a list \<Rightarrow> nat option" where
  "findIndex P [] = None"
| "findIndex P (x # xs) = (if P x then Some 0 else map_option Suc (findIndex P xs))"

text \<open>\<^verbatim>\<open>GET /products/:id\<close>\<close>

definition getProduct :: "catalog \<Rightarrow> string \<Rightarrow> failure + product" where
  "getProduct s idParam =
     (case parseInt_str idParam of
        None \<Rightarrow> Inl InvalidProductId
      | Some i \<Rightarrow>
          (case find (hasId i) (products s) of
             None \<Rightarrow> Inl ProductNotFound
           | Some p \<Rightarrow> Inr p))"

text \<open>
  \<^verbatim>\<open>POST /products\<close>. \<open>now\<close> is the string that \<^verbatim>\<open>new Date().toISOString()\<close> returns during
  the request.
\<close>

definition postProducts :: "catalog \<Rightarrow> string \<Rightarrow> body \<Rightarrow> (failure + product) \<times> catalog" where
  "postProducts s now b =
     (case validateProduct b of
        Some e \<Rightarrow> (Inl e, s)
      | None \<Rightarrow>
          (let description = (if b_description b = JUndefined then JStr [] else b_description b);
               nameExists = list_ex (\<lambda>p. toLowerCase (p_name p) = toLowerCase (ToString (b_name b)))
                              (products s)
           in if nameExists then (Inl NameExists, s)
              else
                (case generateId s of
                   (newId, s') \<Rightarrow>
                     (let newProduct =
                            \<lparr>p_id = JNum (Fin (of_int newId)),
                             p_name = trim (ToString (b_name b)),
                             p_category = trim (ToString (b_category b)),
                             p_price = parseFloat (b_price b),
                             p_stock = num_of_parse (parseInt (b_stock b)),
                             p_description = JStr (ToString description),
                             p_createdAt = JStr now,
                             p_updatedAt = JNull\<rparr>
                      in (Inr newProduct, s'\<lparr>products := products s' @ [newProduct]\<rparr>)))))"

text \<open>\<^verbatim>\<open>PUT /products/:id\<close>: the validation middleware runs before the handler reads the id.\<close>

definition putProducts ::
  "catalog \<Rightarrow> string \<Rightarrow> string \<Rightarrow> body \<Rightarrow> (failure + product) \<times> catalog" where
  "putProducts s now idParam b =
     (case validateProduct b of
        Some e \<Rightarrow> (Inl e, s)
      | None \<Rightarrow>
     (case parseInt_str idParam of
        None \<Rightarrow> (Inl InvalidProductId, s)
      | Some i \<Rightarrow>
     (case findIndex (hasId i) (products s) of
        None \<Rightarrow> (Inl ProductNotFound, s)
      | Some productIndex \<Rightarrow>
          (let nameExists =
                 list_ex (\<lambda>p. toLowerCase (p_name p) = toLowerCase (ToString (b_name b))
                               \<and> \<not> hasId i p) (products s)
           in if nameExists then (Inl NameExistsForAnother, s)
              else
                (let old = products s ! productIndex;
                     updatedProduct =
                       old\<lparr>p_name := trim (ToString (b_name b)),
                           p_category := trim (ToString (b_category b)),
                           p_price := parseFloat (b_price b),
                           p_stock := num_of_parse (parseInt (b_stock b)),
                           p_description := (if truthy (b_description b) then b_description b
                                             else p_description old),
                           p_updatedAt := JStr now\<rparr>
                 in (Inr updatedProduct,
                     s\<lparr>products := (products s)[productIndex := updatedProduct]\<rparr>))))))"

text \<open>
  \<^verbatim>\<open>PATCH /products/:id\<close>: every key of the body lands in the record, the four converted
  ones after their conversion.
\<close>

definition patchProducts ::
  "catalog \<Rightarrow> string \<Rightarrow> string \<Rightarrow> body \<Rightarrow> (failure + product) \<times> catalog" where
  "patchProducts s now idParam updates =
     (case validateProductUpdate updates of
        Some e \<Rightarrow> (Inl e, s)
      | None \<Rightarrow>
     (case parseInt_str idParam of
        None \<Rightarrow> (Inl InvalidProductId, s)
      | Some i \<Rightarrow>
     (case findIndex (hasId i) (products s) of
        None \<Rightarrow> (Inl ProductNotFound, s)
      | Some productIndex \<Rightarrow>
          (let nameExists =
                 (truthy (b_name updates) \<and>
                  list_ex (\<lambda>p. toLowerCase (p_name p) = toLowerCase (ToString (b_name updates))
                                \<and> \<not> hasId i p) (products s))
           in if nameExists then (Inl NameExistsForAnother, s)
              else
                (let old = products s ! productIndex;
                     updatedProduct =
                       \<lparr>p_id = (if b_id updates \<noteq> JUndefined then b_id updates else p_id old),
                        p_name = (if b_name updates \<noteq> JUndefined
                                  then trim (ToString (b_name updates)) else p_name old),
                        p_category = (if b_category updates \<noteq> JUndefined
                                      then trim (ToString (b_category updates))
                                      else p_category old),
                        p_price = (if b_price updates \<noteq> JUndefined
                                   then parseFloat (b_price updates) else p_price old),
                        p_stock = (if b_stock updates \<noteq> JUndefined
                                   then num_of_parse (parseInt (b_stock updates))
                                   else p_stock old),
                        p_description = (if b_description updates \<noteq> JUndefined
                                         then b_description updates else p_description old),
                        p_createdAt = (if b_createdAt updates \<noteq> JUndefined
                                       then b_createdAt updates else p_createdAt old),
                        p_updatedAt = JStr now\<rparr>
                 in (Inr updatedProduct,
                     s\<lparr>products := (products s)[productIndex := updatedProduct]\<rparr>))))))"

text \<open>\<^verbatim>\<open>DELETE /products/:id\<close>\<close>

definition deleteProducts :: "catalog \<Rightarrow> string \<Rightarrow> (failure + product) \<times> catalog" where
  "deleteProducts s idParam =
     (case parseInt_str idParam of
        None \<Rightarrow> (Inl InvalidProductId, s)
      | Some i \<Rightarrow>
     (case findIndex (hasId i) (products s) of
        None \<Rightarrow> (Inl ProductNotFound, s)
      | Some productIndex \<Rightarrow>
          (Inr (products s ! productIndex),
           s\<lparr>products := take productIndex (products s) @ drop (Suc productIndex) (products s)\<rparr>)))"

text \<open>
  \<^verbatim>\<open>POST /products/:id/stock\<close>. \<^verbatim>\<open>operation.toLowerCase()\<close> throws when the operation is truthy
  and not a string.
\<close>

definition postStock ::
  "catalog \<Rightarrow> string \<Rightarrow> string \<Rightarrow> body \<Rightarrow> (failure + product) \<times> catalog" where
  "postStock s now idParam b =
     (case parseInt_str idParam of
        None \<Rightarrow> (Inl InvalidProductId, s)
      | Some i \<Rightarrow>
          if \<not> truthy (b_operation b) \<or> b_quantity b = JUndefined \<or> b_quantity b = JNull
          then (Inl OperationAndQuantityRequired, s)
          else
            (case parseInt (b_quantity b) of
               None \<Rightarrow> (Inl QuantityNotPositive, s)
             | Some qty \<Rightarrow>
                 if qty \<le> 0 then (Inl QuantityNotPositive, s)
                 else
                   (case findIndex (hasId i) (products s) of
                      None \<Rightarrow> (Inl ProductNotFound, s)
                    | Some productIndex \<Rightarrow>
                        (let product = products s ! productIndex
                         in case b_operation b of
                              JStr operation \<Rightarrow>
                                if toLowerCase operation = ''add'' then
                                  (let product' =
                                         product\<lparr>p_stock := num_add (p_stock product) (Fin (of_int qty)),
                                                 p_updatedAt := JStr now\<rparr>
                                   in (Inr product',
                                       s\<lparr>products := (products s)[productIndex := product']\<rparr>))
                                else if toLowerCase operation = ''subtract'' then
                                  (if num_lt (p_stock product) (Fin (of_int qty))
                                   then (Inl (InsufficientStock (p_stock product) (Fin (of_int qty))), s)
                                   else
                                     (let product' =
                                            product\<lparr>p_stock := num_sub (p_stock product) (Fin (of_int qty)),
                                                    p_updatedAt := JStr now\<rparr>
                                      in (Inr product',
                                          s\<lparr>products := (products s)[productIndex := product']\<rparr>)))
                                else (Inl InvalidOperation, s)
                            | _ \<Rightarrow> (Inl InternalError, s)))))"

subsection \<open>The query pipeline, \<^verbatim>\<open>GET /products\<close>\<close>

text \<open>
  The parameters of the query string, \<^verbatim>\<open>req.query\<close>: each one absent or a string.
  Repeated and bracketed parameters, which Express parses to arrays and objects, are
  outside this model.
\<close>

record query =
  q_category :: "string option"
  q_minPrice :: "string option"
  q_maxPrice :: "string option"
  q_inStock :: "string option"
  q_sortBy :: "string option"
  q_sortOrder :: "string option"
  q_page :: "string option"
  q_limit :: "string option"
  q_search :: "string option"

definition emptyQuery :: query where
  "emptyQuery =
     \<lparr>q_category = None, q_minPrice = None, q_maxPrice = None, q_inStock = None,
      q_sortBy = None, q_sortOrder = None, q_page = None, q_limit = None, q_search = None\<rparr>"

text \<open>The response: \<open>metadata\<close>, the echo of the filters, and the page.\<close>

record listing =
  totalProducts :: nat
  totalPages :: nat
  currentPage :: nat
  pageSize :: nat
  hasNextPage :: bool
  hasPrevPage :: bool
  f_category :: "string option"
  f_minPrice :: "number option"
  f_maxPrice :: "number option"
  f_inStock :: "bool option"
  f_search :: "string option"
  f_sortBy :: string
  f_sortOrder :: string
  page_products :: "product list"

text \<open>\<^verbatim>\<open>if (param)\<close> on a query parameter: present and not the empty string.\<close>

definition given :: "string option \<Rightarrow> bool" where
  "given param = (case param of None \<Rightarrow> False | Some v \<Rightarrow> v \<noteq> [])"

definition filterCategory :: "query \<Rightarrow> product list \<Rightarrow> product list" where
  "filterCategory q ps =
     (if given (q_category q)
      then filter (\<lambda>p. toLowerCase (p_category p) = toLowerCase (the (q_category q))) ps
      else ps)"

definition filterMinPrice :: "query \<Rightarrow> product list \<Rightarrow> product list" where
  "filterMinPrice q ps =
     (if given (q_minPrice q) then
        (let min = parseFloat_str (the (q_minPrice q))
         in if min \<noteq> NaN then filter (\<lambda>p. num_ge (p_price p) min) ps else ps)
      else ps)"

definition filterMaxPrice :: "query \<Rightarrow> product list \<Rightarrow> product list" where
  "filterMaxPrice q ps =
     (if given (q_maxPrice q) then
        (let max = parseFloat_str (the (q_maxPrice q))
         in if max \<noteq> NaN then filter (\<lambda>p. num_le (p_price p) max) ps else ps)
      else ps)"

definition filterInStock :: "query \<Rightarrow> product list \<Rightarrow> product list" where
  "filterInStock q ps =
     (if q_inStock q = Some ''true'' then filter (\<lambda>p. num_gt (p_stock p) (Fin 0)) ps
      else if q_inStock q = Some ''false'' then filter (\<lambda>p. p_stock p = Fin 0) ps
      else ps)"

text \<open>
  The search predicate reads \<^verbatim>\<open>product.description.toLowerCase()\<close> only when the name does
  not match, and throws when the description is not a string.
\<close>

definition matchesSearch :: "string \<Rightarrow> product \<Rightarrow> failure + bool" where
  "matchesSearch searchLower p =
     (if includes_str (toLowerCase (p_name p)) searchLower then Inr True
      else case p_description p of
             JStr d \<Rightarrow> Inr (includes_str (toLowerCase d) searchLower)
           | _ \<Rightarrow> Inl InternalError)"

text \<open>\<^verbatim>\<open>Array.prototype.filter\<close> with a predicate that can throw.\<close>

fun filterThrowing :: "('a \<Rightarrow> failure + bool) \<Rightarrow> 'a list \<Rightarrow> failure + 'a list" where
  "filterThrowing P [] = Inr []"
| "filterThrowing P (x # xs) =
     (case P x of
        Inl e \<Rightarrow> Inl e
      | Inr keep \<Rightarrow>
          (case filterThrowing P xs of
             Inl e \<Rightarrow> Inl e
           | Inr ys \<Rightarrow> Inr (if keep then x # ys else ys)))"

definition filterSearch :: "query \<Rightarrow> product list \<Rightarrow> failure + product list" where
  "filterSearch q ps =
     (if given (q_search q) then filterThrowing (matchesSearch (toLowerCase (the (q_search q)))) ps
      else Inr ps)"

definition filterProducts :: "query \<Rightarrow> product list \<Rightarrow> failure + product list" where
  "filterProducts q ps =
     filterSearch q (filterInStock q (filterMaxPrice q (filterMinPrice q (filterCategory q ps))))"

definition validSortFields :: "string list" where
  "validSortFields = [''id'', ''name'', ''price'', ''stock'', ''createdAt'']"

definition sortField :: "query \<Rightarrow> string" where
  "sortField q =
     (let sortBy = (case q_sortBy q of None \<Rightarrow> ''id'' | Some v \<Rightarrow> v)
      in if sortBy \<in> set validSortFields then sortBy else ''id'')"

definition order :: "query \<Rightarrow> int" where
  "order q =
     (let sortOrder = (case q_sortOrder q of None \<Rightarrow> ''asc'' | Some v \<Rightarrow> v)
      in if toLowerCase sortOrder = ''desc'' then - 1 else 1)"

text \<open>\<^verbatim>\<open>a[sortField]\<close> for a field name out of \<open>validSortFields\<close>.\<close>

definition fieldOf :: "string \<Rightarrow> product \<Rightarrow> jsval" where
  "fieldOf field p =
     (if field = ''name'' then JStr (p_name p)
      else if field = ''price'' then JNum (p_price p)
      else if field = ''stock'' then JNum (p_stock p)
      else if field = ''createdAt'' then p_createdAt p
      else p_id p)"

definition compareProducts :: "string \<Rightarrow> int \<Rightarrow> product \<Rightarrow> product \<Rightarrow> int" where
  "compareProducts field ord a b =
     (let av = (if field = ''name'' then JStr (toLowerCase (p_name a)) else fieldOf field a);
          bv = (if field = ''name'' then JStr (toLowerCase (p_name b)) else fieldOf field b)
      in if js_lt av bv then - 1 * ord
         else if js_gt av bv then 1 * ord
         else 0)"

text \<open>
  \<^verbatim>\<open>Array.prototype.sort(compare)\<close> is stable; it is modelled as the stable insertion sort.
  When \<open>compare\<close> is a consistent comparison this is the result of every stable sort; when
  it is not (a field that holds \<^verbatim>\<open>NaN\<close> or values of mixed types), the order an engine
  produces is implementation-defined and this is one of the possible orders.
\<close>

fun insertBy :: "('a \<Rightarrow> 'a \<Rightarrow> int) \<Rightarrow> 'a \<Rightarrow> 'a list \<Rightarrow> 'a list" where
  "insertBy cmp x [] = [x]"
| "insertBy cmp x (y # ys) = (if cmp x y \<le> 0 then x # y # ys else y # insertBy cmp x ys)"

definition sortBy :: "('a \<Rightarrow> 'a \<Rightarrow> int) \<Rightarrow> 'a list \<Rightarrow> 'a list" where
  "sortBy cmp xs = foldr (insertBy cmp) xs []"

definition sortProducts :: "query \<Rightarrow> product list \<Rightarrow> product list" where
  "sortProducts q ps = sortBy (compareProducts (sortField q) (order q)) ps"

text \<open>
  \<^verbatim>\<open>Number.isInteger(Number(v)) ? parseInt(v, 10) : dflt\<close>, then \<^verbatim>\<open>n > 0 ? n : dflt\<close>, for the
  parameter \<open>v\<close> whose default, when it is absent, is the number \<open>dflt\<close>.
\<close>

definition safeNum :: "nat \<Rightarrow> string option \<Rightarrow> nat" where
  "safeNum dflt param =
     (let v = (case param of None \<Rightarrow> JNum (Fin (of_nat dflt)) | Some t \<Rightarrow> JStr t);
          n = (if isInteger (ToNumber v) then parseInt v else Some (int dflt))
      in case n of
           None \<Rightarrow> dflt
         | Some k \<Rightarrow> if 0 < k then nat k else dflt)"

definition safePageNum :: "query \<Rightarrow> nat" where
  "safePageNum q = safeNum 1 (q_page q)"

definition safeLimitNum :: "query \<Rightarrow> nat" where
  "safeLimitNum q = safeNum 10 (q_limit q)"

text \<open>\<^verbatim>\<open>xs.slice(a, b)\<close> for indices \<open>0 \<le> a\<close> and \<open>0 \<le> b\<close>.\<close>

definition slice :: "nat \<Rightarrow> nat \<Rightarrow> 'a list \<Rightarrow> 'a list" where
  "slice a b xs = take (b - a) (drop a xs)"

definition ceilDiv :: "nat \<Rightarrow> nat \<Rightarrow> nat" where
  "ceilDiv n d = nat \<lceil>(of_nat n :: rat) / of_nat d\<rceil>"

definition getProducts :: "catalog \<Rightarrow> query \<Rightarrow> failure + listing" where
  "getProducts s q =
     (case filterProducts q (products s) of
        Inl e \<Rightarrow> Inl e
      | Inr filtered \<Rightarrow>
          (let filteredProducts = sortProducts q filtered;
               startIndex = (safePageNum q - 1) * safeLimitNum q;
               endIndex = startIndex + safeLimitNum q
           in Inr \<lparr>totalProducts = length filteredProducts,
                   totalPages = ceilDiv (length filteredProducts) (safeLimitNum q),
                   currentPage = safePageNum q,
                   pageSize = safeLimitNum q,
                   hasNextPage = (endIndex < length filteredProducts),
                   hasPrevPage = (0 < startIndex),
                   f_category = q_category q,
                   f_minPrice = (if given (q_minPrice q)
                                 then Some (parseFloat_str (the (q_minPrice q))) else None),
                   f_maxPrice = (if given (q_maxPrice q)
                                 then Some (parseFloat_str (the (q_maxPrice q))) else None),
                   f_inStock = (if given (q_inStock q)
                                then Some (q_inStock q = Some ''true'') else None),
                   f_search = q_search q,
                   f_sortBy = sortField q,
                   f_sortOrder = (if order q = 1 then ''asc'' else ''desc''),
                   page_products = slice startIndex endIndex filteredProducts\<rparr>))"

section \<open>Runs of the service\<close>

datatype request =
    GetList query
  | GetOne string
  | Create body
  | Put string body
  | Patch string body
  | Delete string
  | Stock string body

datatype reply = Products listing | Product product

definition withProduct :: "(failure + product) \<times> catalog \<Rightarrow> (failure + reply) \<times> catalog" where
  "withProduct r = (map_sum (\<lambda>e. e) Product (fst r), snd r)"

text \<open>One request, served at the time \<open>now\<close>.\<close>

fun handle :: "catalog \<Rightarrow> string \<times> request \<Rightarrow> (failure + reply) \<times> catalog" where
  "handle s (now, GetList q) = (map_sum (\<lambda>e. e) Products (getProducts s q), s)"
| "handle s (now, GetOne i) = (map_sum (\<lambda>e. e) Product (getProduct s i), s)"
| "handle s (now, Create b) = withProduct (postProducts s now b)"
| "handle s (now, Put i b) = withProduct (putProducts s now i b)"
| "handle s (now, Patch i b) = withProduct (patchProducts s now i b)"
| "handle s (now, Delete i) = withProduct (deleteProducts s i)"
| "handle s (now, Stock i b) = withProduct (postStock s now i b)"

text \<open>The catalog after a sequence of requests.\<close>

fun run :: "catalog \<Rightarrow> (string \<times> request) list \<Rightarrow> catalog" where
  "run s [] = s"
| "run s (r # rs) = run (snd (handle s r)) rs"

text \<open>The ids of the records that the successful creations of a run return, in order.\<close>

fun createdIds :: "catalog \<Rightarrow> (string \<times> request) list \<Rightarrow> jsval list" where
  "createdIds s [] = []"
| "createdIds s ((now, Create b) # rs) =
     (case postProducts s now b of
        (Inr p, s') \<Rightarrow> p_id p # createdIds s' rs
      | (Inl e, s') \<Rightarrow> createdIds s' rs)"
| "createdIds s ((now, GetList q) # rs) = createdIds (snd (handle s (now, GetList q))) rs"
| "createdIds s ((now, GetOne i) # rs) = createdIds (snd (handle s (now, GetOne i))) rs"
| "createdIds s ((now, Put i b) # rs) = createdIds (snd (handle s (now, Put i b))) rs"
| "createdIds s ((now, Patch i b) # rs) = createdIds (snd (handle s (now, Patch i b))) rs"
| "createdIds s ((now, Delete i) # rs) = createdIds (snd (handle s (now, Delete i))) rs"
| "createdIds s ((now, Stock i b) # rs) = createdIds (snd (handle s (now, Stock i b))) rs"

text \<open>A number value that is an integer not below \<open>c\<close>.\<close>

definition idAtLeast :: "int \<Rightarrow> jsval \<Rightarrow> bool" where
  "idAtLeast c v = (\<exists>n. c \<le> n \<and> v = JNum (Fin (of_int n)))"

text \<open>The \<^verbatim>\<open>products\<close> array of a response; a failed request has none.\<close>

definition pageOf :: "failure + listing \<Rightarrow> product list" where
  "pageOf r = (case r of Inl e \<Rightarrow> [] | Inr l \<Rightarrow> page_products l)"



text \<open>No two records of a catalog have names that are equal ignoring case.\<close>

definition namesUnique :: "product list \<Rightarrow> bool" where
  "namesUnique ps = distinct (map (\<lambda>p. toLowerCase (p_name p)) ps)"

text \<open>Example requests, used to instantiate the theorems below.\<close>

definition byNameInThrees :: query where
  "byNameInThrees = emptyQuery\<lparr>q_sortBy := Some ''name'', q_limit := Some ''3''\<rparr>"


text \<open>A full update of the seed record 2 with an empty description.\<close>

definition renamePhone :: body where
  "renamePhone =
     emptyBody\<lparr>b_name := JStr ''Phone'', b_category := JStr ''Electronics'',
               b_price := JNum (Fin 650), b_stock := JNum (Fin 20), b_description := JStr []\<rparr>"

text \<open>The seed record 2 after that update, served on 1 March 2024.\<close>

definition phoneAfter :: product where
  "phoneAfter =
     \<lparr>p_id = JNum (Fin 2), p_name = ''Phone'', p_category = ''Electronics'',
      p_price = Fin 650, p_stock = Fin 20,
      p_description = JStr ''Latest smartphone with 128GB storage'',
      p_createdAt = JStr ''2024-01-20T14:45:00.000Z'',
      p_updatedAt = JStr ''2024-03-01T00:00:00.000Z''\<rparr>"

text \<open>The time at which the example requests are served.\<close>

definition servedAt :: string where
  "servedAt = ''2024-03-01T00:00:00.000Z''"








text \<open>A creation whose name is \<^verbatim>\<open>Laptop\<close> after a space.\<close>

definition spacedLaptop :: body where
  "spacedLaptop =
     emptyBody\<lparr>b_name := JStr '' Laptop'', b_category := JStr ''Electronics'',
               b_price := JNum (Fin 10), b_stock := JNum (Fin 1)\<rparr>"

text \<open>A partial update whose only key is \<open>stock\<close>, with the value \<^verbatim>\<open>null\<close>.\<close>

definition nullStock :: body where
  "nullStock = emptyBody\<lparr>b_stock := JNull\<rparr>"

text \<open>The subtraction of \<^verbatim>\<open>1e21\<close> units, and of five units.\<close>

definition subtractSextillion :: body where
  "subtractSextillion =
     emptyBody\<lparr>b_operation := JStr ''subtract'', b_quantity := JNum (Fin (10 ^ 21))\<rparr>"

definition subtractFive :: body where
  "subtractFive = emptyBody\<lparr>b_operation := JStr ''subtract'', b_quantity := JNum (Fin 5)\<rparr>"

text \<open>The subtraction of 100 units, the number of the spec's example.\<close>

definition subtractHundred :: body where
  "subtractHundred = emptyBody\<lparr>b_operation := JStr ''subtract'', b_quantity := JNum (Fin 100)\<rparr>"

text \<open>A partial update that carries an \<open>id\<close> key, and the creation of a new product.\<close>

definition idFive :: body where
  "idFive = emptyBody\<lparr>b_id := JNum (Fin 5)\<rparr>"

definition tablet :: body where
  "tablet =
     emptyBody\<lparr>b_name := JStr ''Tablet'', b_category := JStr ''Electronics'',
               b_price := JNum (Fin 300), b_stock := JNum (Fin 7)\<rparr>"

section \<open>Properties\<close>

subsection \<open>The id counter\<close>

lemma seed_currentId: "initialId (products seed) = Fin (of_int (currentId seed))"
  by (simp add: initialId_def seed_def seedProducts_def Let_def)

lemma postProducts_Inl: "postProducts s now b = (Inl e, s') \<Longrightarrow> s' = s"
  by (auto simp: postProducts_def Let_def generateId_def split: option.splits if_splits)

lemma postProducts_Inr:
  "postProducts s now b = (Inr p, s') \<Longrightarrow>
     p_id p = JNum (Fin (of_int (currentId s))) \<and> currentId s' = currentId s + 1
       \<and> products s' = products s @ [p]"
  by (auto simp: postProducts_def Let_def generateId_def split: option.splits if_splits)

lemma putProducts_currentId: "currentId (snd (putProducts s now i b)) = currentId s"
  by (simp add: putProducts_def Let_def split: option.splits)

lemma patchProducts_currentId: "currentId (snd (patchProducts s now i b)) = currentId s"
  by (simp add: patchProducts_def Let_def split: option.splits)

lemma deleteProducts_currentId: "currentId (snd (deleteProducts s i)) = currentId s"
  by (simp add: deleteProducts_def split: option.splits)

lemma postStock_currentId: "currentId (snd (postStock s now i b)) = currentId s"
  by (simp add: postStock_def Let_def split: option.splits jsval.splits)

lemma idAtLeast_mono: "c \<le> d \<Longrightarrow> idAtLeast d v \<Longrightarrow> idAtLeast c v"
  by (auto simp: idAtLeast_def)

text \<open>
  Every id that a run hands out from a state is an integer at or above the counter of
  that state, and the ids come out in strictly increasing order.
\<close>

lemma createdIds_bounds:
  "list_all (idAtLeast (currentId s)) (createdIds s rs) \<and> sorted_wrt js_lt (createdIds s rs)"
proof (induction s rs rule: createdIds.induct)
  case (1 s)
  then show ?case by simp
next
  case (2 s now b rs)
  show ?case
  proof (cases "postProducts s now b")
    case (Pair res s')
    show ?thesis
    proof (cases res)
      case (Inl e)
      with Pair have "s' = s" by (auto dest: postProducts_Inl)
      with "2.IH"(1)[OF Pair[symmetric] Inl] Pair Inl show ?thesis by simp
    next
      case (Inr p)
      with Pair have p: "p_id p = JNum (Fin (of_int (currentId s)))"
        and c: "currentId s' = currentId s + 1"
        by (auto dest: postProducts_Inr)
      from "2.IH"(2)[OF Pair[symmetric] Inr]
      have ih: "list_all (idAtLeast (currentId s')) (createdIds s' rs)"
        "sorted_wrt js_lt (createdIds s' rs)" by simp_all
      have "list_all (idAtLeast (currentId s)) (createdIds s' rs)"
        using ih(1) c
        by (auto simp: list_all_iff intro: idAtLeast_mono[of "currentId s" "currentId s + 1"])
      moreover have "idAtLeast (currentId s) (p_id p)"
        using p by (auto simp: idAtLeast_def)
      moreover have "\<forall>v \<in> set (createdIds s' rs). js_lt (p_id p) v"
        using ih(1) c p by (auto simp: list_all_iff idAtLeast_def)
      ultimately show ?thesis using Pair Inr ih(2) by simp
    qed
  qed
next
  case (3 s now q rs)
  then show ?case by simp
next
  case (4 s now i rs)
  then show ?case by simp
next
  case (5 s now i b rs)
  have "currentId (snd (handle s (now, Put i b))) = currentId s"
    by (simp add: withProduct_def putProducts_currentId)
  with 5 show ?case by simp
next
  case (6 s now i b rs)
  have "currentId (snd (handle s (now, Patch i b))) = currentId s"
    by (simp add: withProduct_def patchProducts_currentId)
  with 6 show ?case by simp
next
  case (7 s now i rs)
  have "currentId (snd (handle s (now, Delete i))) = currentId s"
    by (simp add: withProduct_def deleteProducts_currentId)
  with 7 show ?case by simp
next
  case (8 s now i b rs)
  have "currentId (snd (handle s (now, Stock i b))) = currentId s"
    by (simp add: withProduct_def postStock_currentId)
  with 8 show ?case by simp
qed

text \<open>
  Claim C3. Take any sequence of requests served from the seed catalog. List the ids of
  the four seed records and then the ids of the records that the successful creations
  return, in the order of the run. Under JavaScript's \<^verbatim>\<open><\<close> every id of this list is
  strictly below every later one: a created record's id is strictly greater than every id
  assigned before it, whether or not the record that carried the earlier id has been
  deleted in between, and no id is assigned twice.
\<close>

theorem created_ids_strictly_increase:
  "sorted_wrt js_lt (map p_id (products seed) @ createdIds seed rs)"
proof -
  have a: "sorted_wrt js_lt (map p_id (products seed))"
    by (simp add: seed_def seedProducts_def)
  have b: "list_all (idAtLeast 5) (createdIds seed rs)" "sorted_wrt js_lt (createdIds seed rs)"
    using createdIds_bounds[of seed rs] by (simp_all add: seed_def)
  have c: "\<forall>x \<in> set (map p_id (products seed)). \<forall>y \<in> set (createdIds seed rs). js_lt x y"
    using b(1) by (auto simp: list_all_iff idAtLeast_def seed_def seedProducts_def)
  show ?thesis using a b(2) c by (simp add: sorted_wrt_append)
qed

subsection \<open>Decimal digits and the number parsers\<close>

lemma digitChar_digit: "d < 10 \<Longrightarrow> isDigit (digitChar d) \<and> digitVal (digitChar d) = d"
proof -
  assume "d < 10"
  then have "d \<in> {0, 1, 2, 3, 4, 5, 6, 7, 8, 9}" by auto
  then show ?thesis
    by (auto simp: digitChar_def isDigit_def digitVal_def code_def)
qed

lemma isDigit_not_space: "isDigit c \<Longrightarrow> \<not> isWhiteSpace c"
  by (auto simp: isDigit_def isWhiteSpace_def)

lemma isDigit_not_sign: "isDigit c \<Longrightarrow> c \<noteq> CHR ''-'' \<and> c \<noteq> CHR ''+''"
  by (auto simp: isDigit_def code_def)

lemma decimal_digits: "list_all isDigit (decimal n)"
  by (induction n rule: decimal.induct) (subst decimal.simps, simp add: digitChar_digit)

lemma decimal_nonempty: "decimal n \<noteq> []"
  by (subst decimal.simps) simp

lemma digitsVal_snoc: "digitsVal (ds @ [c]) = 10 * digitsVal ds + digitVal c"
  by (simp add: digitsVal_def)

lemma digitsVal_decimal: "digitsVal (decimal n) = n"
proof (induction n rule: decimal.induct)
  case (1 n)
  show ?case
  proof (cases "n < 10")
    case True
    then show ?thesis
      by (subst decimal.simps) (simp add: digitsVal_def digitChar_digit)
  next
    case False
    with 1 have "digitsVal (decimal (n div 10)) = n div 10" by simp
    with False show ?thesis
      by (subst decimal.simps) (simp add: digitsVal_snoc digitChar_digit)
  qed
qed

lemma takeWhile_digits:
  "list_all isDigit ds \<Longrightarrow> r = [] \<or> \<not> isDigit (hd r) \<Longrightarrow> takeWhile isDigit (ds @ r) = ds"
  by (cases r) (auto simp: list_all_iff takeWhile_append2)

lemma dropWhile_digits:
  "list_all isDigit ds \<Longrightarrow> r = [] \<or> \<not> isDigit (hd r) \<Longrightarrow> dropWhile isDigit (ds @ r) = r"
  by (cases r) (auto simp: list_all_iff dropWhile_append2)

lemma trimStart_digit: "s \<noteq> [] \<Longrightarrow> isDigit (hd s) \<Longrightarrow> trimStart s = s"
  by (cases s) (auto simp: trimStart_def isDigit_not_space)

lemma parseInt_str_digits:
  assumes "ds \<noteq> []" "list_all isDigit ds" "r = [] \<or> \<not> isDigit (hd r)"
  shows "parseInt_str (ds @ r) = Some (int (digitsVal ds))"
proof -
  from assms(1,2) have h: "isDigit (hd (ds @ r))" "ds @ r \<noteq> []"
    by (cases ds; simp)+
  then have t: "trimStart (ds @ r) = ds @ r" by (simp add: trimStart_digit)
  from h have s: "hd (ds @ r) \<noteq> CHR ''-''" "hd (ds @ r) \<noteq> CHR ''+''"
    using isDigit_not_sign by blast+
  show ?thesis
    unfolding parseInt_str_def t Let_def
    using s assms takeWhile_digits[OF assms(2,3)] by simp
qed

lemma parseInt_str_decimal: "parseInt_str (decimal n) = Some (int n)"
  using parseInt_str_digits[of "decimal n" "[]"]
  by (simp add: decimal_nonempty decimal_digits digitsVal_decimal)




lemma trimEnd_append_keep:
  assumes "xs \<noteq> []" "\<not> isWhiteSpace (last xs)"
  shows "trimEnd (xs @ ys) = xs @ trimEnd ys"
proof -
  from assms have "dropWhile isWhiteSpace (rev xs) = rev xs"
    by (cases xs rule: rev_cases) auto
  then show ?thesis
    by (simp add: trimEnd_def dropWhile_append)
qed






lemma StringToNumber_decimal: "StringToNumber (decimal n) = Fin (of_nat n)"
proof -
  have d: "list_all isDigit (decimal n)" and ne: "decimal n \<noteq> []"
    by (simp_all add: decimal_digits decimal_nonempty)
  have nows: "list_all (\<lambda>c. \<not> isWhiteSpace c) (decimal n)"
    using d by (auto simp: list_all_iff isDigit_not_space)
  have ts: "trimStart (decimal n) = decimal n"
    using ne d by (cases "decimal n") (auto simp: trimStart_digit)
  have te: "trimEnd (decimal n) = decimal n"
    using trimEnd_append_keep[of "decimal n" "[]"] ne d
    by (cases "decimal n" rule: rev_cases) (auto simp: isDigit_not_space trimEnd_def)
  have t: "trim (decimal n) = decimal n" by (simp add: trim_def ts te)
  have hdd: "isDigit (hd (decimal n))" using ne d by (cases "decimal n") auto
  have rl: "radixLiteral (decimal n) = None"
  proof (cases "decimal n")
    case Nil
    then show ?thesis using ne by simp
  next
    case (Cons c0 cs)
    show ?thesis
    proof (cases cs)
      case Nil
      with Cons show ?thesis by (simp add: radixLiteral_def)
    next
      case (Cons c1 cs')
      with d \<open>decimal n = c0 # cs\<close> have "isDigit c1" by simp
      then have "c1 \<noteq> CHR ''x''" "c1 \<noteq> CHR ''X''" "c1 \<noteq> CHR ''o''" "c1 \<noteq> CHR ''O''"
        "c1 \<noteq> CHR ''b''" "c1 \<noteq> CHR ''B''"
        by (auto simp: isDigit_def code_def)
      with Cons \<open>decimal n = c0 # cs\<close> show ?thesis by (simp add: radixLiteral_def)
    qed
  qed
  have ss: "signSplit (decimal n) = (False, decimal n)"
    using hdd ne by (cases "decimal n") (auto simp: signSplit_def dest: isDigit_not_sign)
  have ninf: "decimal n \<noteq> ''Infinity''"
    using hdd by (auto simp: isDigit_def code_def)
  have tw: "takeWhile isDigit (decimal n) = decimal n" "dropWhile isDigit (decimal n) = []"
    using takeWhile_digits[OF d, of "[]"] dropWhile_digits[OF d, of "[]"] by simp_all
  have "unsignedDecimal False (decimal n) = Fin (of_nat n)"
    by (simp add: unsignedDecimal_def Let_def tw ne decimalValue_def pow10_def digitsVal_decimal)
       (simp add: digitsVal_def)
  then show ?thesis
    by (simp add: StringToNumber_def Let_def t ne rl ss ninf)
qed

subsection \<open>Pagination\<close>

lemma isInteger_of_nat: "isInteger (Fin (of_nat n))"
  by (simp add: isInteger_def)

lemma safeNum_decimal: "0 < n \<Longrightarrow> safeNum d (Some (decimal n)) = n"
  by (simp add: safeNum_def Let_def StringToNumber_decimal isInteger_of_nat parseInt_def
      parseInt_str_decimal)




lemma safeNum_positive: "0 < d \<Longrightarrow> 0 < safeNum d param"
  by (auto simp: safeNum_def Let_def split: option.splits)

lemma concat_slices:
  "concat (map (\<lambda>k. slice ((k - 1) * L) ((k - 1) * L + L) xs) [1..<Suc n]) = take (n * L) xs"
proof (induction n)
  case 0
  then show ?case by simp
next
  case (Suc n)
  have "take (n * L) xs @ take L (drop (n * L) xs) = take (n * L + L) xs"
    by (simp add: take_add)
  with Suc show ?case by (simp add: slice_def add.commute)
qed

lemma ceilDiv_covers: "0 < d \<Longrightarrow> n \<le> ceilDiv n d * d"
proof -
  assume d: "0 < d"
  have "(of_nat n :: rat) / of_nat d \<le> of_int \<lceil>(of_nat n :: rat) / of_nat d\<rceil>"
    by (rule le_of_int_ceiling)
  moreover have "0 \<le> \<lceil>(of_nat n :: rat) / of_nat d\<rceil>"
  proof -
    have "(0::rat) \<le> of_nat n / of_nat d" by simp
    then have "- 1 < (of_nat n :: rat) / of_nat d" by linarith
    then show ?thesis by (simp only: zero_le_ceiling)
  qed
  ultimately have "(of_nat n :: rat) / of_nat d \<le> of_nat (ceilDiv n d)"
    by (simp add: ceilDiv_def)
  then have "(of_nat n :: rat) \<le> of_nat (ceilDiv n d) * of_nat d"
    using d by (simp add: pos_divide_le_eq)
  then have "(of_nat n :: rat) \<le> of_nat (ceilDiv n d * d)" by simp
  then show ?thesis by (simp only: of_nat_le_iff)
qed

lemma filterProducts_page [simp]: "filterProducts (q\<lparr>q_page := x\<rparr>) = filterProducts q"
proof -
  have "filterCategory (q\<lparr>q_page := x\<rparr>) = filterCategory q"
    "filterMinPrice (q\<lparr>q_page := x\<rparr>) = filterMinPrice q"
    "filterMaxPrice (q\<lparr>q_page := x\<rparr>) = filterMaxPrice q"
    "filterInStock (q\<lparr>q_page := x\<rparr>) = filterInStock q"
    "filterSearch (q\<lparr>q_page := x\<rparr>) = filterSearch q"
    by (simp_all add: fun_eq_iff filterSearch_def filterInStock_def filterMaxPrice_def
        filterMinPrice_def filterCategory_def)
  then show ?thesis by (simp add: fun_eq_iff filterProducts_def)
qed

lemma sortProducts_page [simp]: "sortProducts (q\<lparr>q_page := x\<rparr>) ps = sortProducts q ps"
  by (simp add: sortProducts_def sortField_def order_def)

lemma safeLimitNum_page [simp]: "safeLimitNum (q\<lparr>q_page := x\<rparr>) = safeLimitNum q"
  by (simp add: safeLimitNum_def)

lemma getProducts_page:
  assumes "filterProducts q (products s) = Inr filtered" "0 < k"
  shows "getProducts s (q\<lparr>q_page := Some (decimal k)\<rparr>) =
     Inr \<lparr>totalProducts = length (sortProducts q filtered),
          totalPages = ceilDiv (length (sortProducts q filtered)) (safeLimitNum q),
          currentPage = k,
          pageSize = safeLimitNum q,
          hasNextPage = ((k - 1) * safeLimitNum q + safeLimitNum q < length (sortProducts q filtered)),
          hasPrevPage = (0 < (k - 1) * safeLimitNum q),
          f_category = q_category q,
          f_minPrice = (if given (q_minPrice q)
                        then Some (parseFloat_str (the (q_minPrice q))) else None),
          f_maxPrice = (if given (q_maxPrice q)
                        then Some (parseFloat_str (the (q_maxPrice q))) else None),
          f_inStock = (if given (q_inStock q)
                       then Some (q_inStock q = Some ''true'') else None),
          f_search = q_search q,
          f_sortBy = sortField q,
          f_sortOrder = (if order q = 1 then ''asc'' else ''desc''),
          page_products = slice ((k - 1) * safeLimitNum q) ((k - 1) * safeLimitNum q + safeLimitNum q)
                            (sortProducts q filtered)\<rparr>"
  using assms
  by (simp add: getProducts_def Let_def safePageNum_def safeNum_decimal sortField_def order_def)

text \<open>
  Claim C4. Take any catalog and any query whose filters run without a failure, and keep
  every parameter but \<open>page\<close> fixed. Every page \<open>k \<ge> 1\<close>, requested as the decimal string of
  \<open>k\<close>, is answered, and reports the same \<open>totalPages\<close>, the ceiling of the number of
  filtered records over the effective limit. The \<open>products\<close> arrays of the pages 1 to
  \<open>totalPages\<close>, concatenated, are exactly the filtered and sorted sequence, so every record
  of it appears once. A limit given as the decimal string of a positive integer \<open>L\<close> is the
  effective limit.
\<close>

theorem pagination_partition:
  assumes "filterProducts q (products s) = Inr filtered"
  shows "(\<forall>k. 0 < k \<longrightarrow>
           (\<exists>l. getProducts s (q\<lparr>q_page := Some (decimal k)\<rparr>) = Inr l
                \<and> currentPage l = k \<and> pageSize l = safeLimitNum q
                \<and> totalPages l = ceilDiv (length (sortProducts q filtered)) (safeLimitNum q)))
       \<and> concat (map (\<lambda>k. pageOf (getProducts s (q\<lparr>q_page := Some (decimal k)\<rparr>)))
                 [1..<Suc (ceilDiv (length (sortProducts q filtered)) (safeLimitNum q))])
           = sortProducts q filtered
       \<and> (0 < L \<and> q_limit q = Some (decimal L) \<longrightarrow> safeLimitNum q = L)"
proof (intro conjI allI impI)
  fix k :: nat
  assume "0 < k"
  from getProducts_page[OF assms this]
  show "\<exists>l. getProducts s (q\<lparr>q_page := Some (decimal k)\<rparr>) = Inr l
                \<and> currentPage l = k \<and> pageSize l = safeLimitNum q
                \<and> totalPages l = ceilDiv (length (sortProducts q filtered)) (safeLimitNum q)"
    by simp
next
  let ?all = "sortProducts q filtered"
  let ?L = "safeLimitNum q"
  let ?T = "ceilDiv (length ?all) ?L"
  have pos: "0 < ?L" by (simp add: safeLimitNum_def safeNum_positive)
  have "map (\<lambda>k. pageOf (getProducts s (q\<lparr>q_page := Some (decimal k)\<rparr>))) [1..<Suc ?T]
        = map (\<lambda>k. slice ((k - 1) * ?L) ((k - 1) * ?L + ?L) ?all) [1..<Suc ?T]"
  proof (rule map_cong)
    fix k assume "k \<in> set [1..<Suc ?T]"
    then have "0 < k" by auto
    from getProducts_page[OF assms this]
    show "pageOf (getProducts s (q\<lparr>q_page := Some (decimal k)\<rparr>))
          = slice ((k - 1) * ?L) ((k - 1) * ?L + ?L) ?all"
      by (simp add: pageOf_def)
  qed simp
  then have "concat (map (\<lambda>k. pageOf (getProducts s (q\<lparr>q_page := Some (decimal k)\<rparr>))) [1..<Suc ?T])
        = take (?T * ?L) ?all"
    by (simp only: concat_slices)
  also have "\<dots> = ?all" using ceilDiv_covers[OF pos, of "length ?all"] by simp
  finally show "concat (map (\<lambda>k. pageOf (getProducts s (q\<lparr>q_page := Some (decimal k)\<rparr>))) [1..<Suc ?T]) = ?all" .
next
  assume "0 < L \<and> q_limit q = Some (decimal L)"
  then show "safeLimitNum q = L" by (simp add: safeLimitNum_def safeNum_decimal)
qed

theorem pagination_partition_witness:
  "filterProducts byNameInThrees (products seed) = Inr seedProducts
   \<and> safeLimitNum byNameInThrees = 3
   \<and> concat (map (\<lambda>k. pageOf (getProducts seed (byNameInThrees\<lparr>q_page := Some (decimal k)\<rparr>)))
         [1..<Suc (ceilDiv (length (sortProducts byNameInThrees seedProducts))
                           (safeLimitNum byNameInThrees))])
       = sortProducts byNameInThrees seedProducts"
proof -
  have ev: "filterProducts byNameInThrees (products seed) = Inr seedProducts"
    by (simp add: filterProducts_def filterSearch_def filterInStock_def filterMaxPrice_def
        filterMinPrice_def filterCategory_def given_def emptyQuery_def seed_def
        byNameInThrees_def)
  have lim: "0 < (3::nat) \<and> q_limit byNameInThrees = Some (decimal 3)"
    by (simp add: byNameInThrees_def emptyQuery_def decimal.simps digitChar_def)
  note th = pagination_partition[OF ev, of 3]
  from th lim have "safeLimitNum byNameInThrees = 3" by blast
  moreover from th have
    "concat (map (\<lambda>k. pageOf (getProducts seed (byNameInThrees\<lparr>q_page := Some (decimal k)\<rparr>)))
         [1..<Suc (ceilDiv (length (sortProducts byNameInThrees seedProducts))
                           (safeLimitNum byNameInThrees))])
       = sortProducts byNameInThrees seedProducts" by blast
  ultimately show ?thesis using ev by blast
qed

subsection \<open>Normalisation of the query parameters\<close>

lemma filterProducts_sortBy [simp]: "filterProducts (q\<lparr>q_sortBy := x\<rparr>) = filterProducts q"
proof -
  have "filterCategory (q\<lparr>q_sortBy := x\<rparr>) = filterCategory q"
    "filterMinPrice (q\<lparr>q_sortBy := x\<rparr>) = filterMinPrice q"
    "filterMaxPrice (q\<lparr>q_sortBy := x\<rparr>) = filterMaxPrice q"
    "filterInStock (q\<lparr>q_sortBy := x\<rparr>) = filterInStock q"
    "filterSearch (q\<lparr>q_sortBy := x\<rparr>) = filterSearch q"
    by (simp_all add: fun_eq_iff filterSearch_def filterInStock_def filterMaxPrice_def
        filterMinPrice_def filterCategory_def)
  then show ?thesis by (simp add: fun_eq_iff filterProducts_def)
qed

lemma filterProducts_limit [simp]: "filterProducts (q\<lparr>q_limit := x\<rparr>) = filterProducts q"
proof -
  have "filterCategory (q\<lparr>q_limit := x\<rparr>) = filterCategory q"
    "filterMinPrice (q\<lparr>q_limit := x\<rparr>) = filterMinPrice q"
    "filterMaxPrice (q\<lparr>q_limit := x\<rparr>) = filterMaxPrice q"
    "filterInStock (q\<lparr>q_limit := x\<rparr>) = filterInStock q"
    "filterSearch (q\<lparr>q_limit := x\<rparr>) = filterSearch q"
    by (simp_all add: fun_eq_iff filterSearch_def filterInStock_def filterMaxPrice_def
        filterMinPrice_def filterCategory_def)
  then show ?thesis by (simp add: fun_eq_iff filterProducts_def)
qed

lemma order_updates [simp]:
  "order (q\<lparr>q_sortBy := x\<rparr>) = order q"
  "order (q\<lparr>q_page := x\<rparr>) = order q"
  "order (q\<lparr>q_limit := x\<rparr>) = order q"
  by (simp_all add: order_def)

lemma sortField_updates [simp]:
  "sortField (q\<lparr>q_page := x\<rparr>) = sortField q"
  "sortField (q\<lparr>q_limit := x\<rparr>) = sortField q"
  by (simp_all add: sortField_def)

lemma safePageNum_updates [simp]:
  "safePageNum (q\<lparr>q_sortBy := x\<rparr>) = safePageNum q"
  "safePageNum (q\<lparr>q_limit := x\<rparr>) = safePageNum q"
  by (simp_all add: safePageNum_def)

lemma safeLimitNum_updates [simp]:
  "safeLimitNum (q\<lparr>q_sortBy := x\<rparr>) = safeLimitNum q"
  by (simp_all add: safeLimitNum_def)








subsection \<open>Full update\<close>

lemma findIndex_Some: "findIndex P xs = Some k \<Longrightarrow> k < length xs \<and> P (xs ! k)"
proof (induction xs arbitrary: k)
  case Nil
  then show ?case by simp
next
  case (Cons x xs)
  then show ?case by (cases "P x") auto
qed

lemma requiredText_ok: "requiredText v msg = Inr [] \<Longrightarrow> \<exists>t. v = JStr t \<and> trim t \<noteq> []"
  by (cases v) (auto simp: requiredText_def split: if_splits)

lemma validateProduct_None:
  assumes "validateProduct b = None"
  shows "\<exists>name cat. b_name b = JStr name \<and> b_category b = JStr cat"
proof -
  from assms have "requiredText (b_name b) ''Product name is required'' = Inr []"
    "requiredText (b_category b) ''Category is required'' = Inr []"
    by (auto simp: validateProduct_def Let_def split: sum.splits if_splits)
  then show ?thesis by (blast dest: requiredText_ok)
qed

text \<open>
  Claim C9. A full update that succeeds found the record at the first index whose id
  matches. When the supplied description is the empty string the stored description is the
  previous one, while name, category, price and stock are the supplied values after their
  conversions, \<open>updatedAt\<close> is the time of the request and \<open>id\<close> and \<open>createdAt\<close> are kept. A
  description that was not the empty string is never the empty string afterwards, whatever
  the request supplies.
\<close>

theorem put_keeps_description:
  assumes "putProducts s now idParam b = (Inr p', s')"
  shows "\<exists>i k name cat.
           parseInt_str idParam = Some i \<and> findIndex (hasId i) (products s) = Some k
         \<and> k < length (products s)
         \<and> b_name b = JStr name \<and> b_category b = JStr cat
         \<and> p_name p' = trim name \<and> p_category p' = trim cat
         \<and> p_price p' = parseFloat (b_price b)
         \<and> p_stock p' = num_of_parse (parseInt (b_stock b))
         \<and> p_updatedAt p' = JStr now
         \<and> p_id p' = p_id (products s ! k) \<and> p_createdAt p' = p_createdAt (products s ! k)
         \<and> (b_description b = JStr [] \<longrightarrow> p_description p' = p_description (products s ! k))
         \<and> (p_description (products s ! k) \<noteq> JStr [] \<longrightarrow> p_description p' \<noteq> JStr [])
         \<and> s' = s\<lparr>products := (products s)[k := p']\<rparr>"
proof -
  from assms have v: "validateProduct b = None"
    by (auto simp: putProducts_def split: option.splits)
  then obtain name cat where nc: "b_name b = JStr name" "b_category b = JStr cat"
    using validateProduct_None by blast
  from assms v obtain i where i: "parseInt_str idParam = Some i"
    by (auto simp: putProducts_def split: option.splits)
  from assms v i obtain k where k: "findIndex (hasId i) (products s) = Some k"
    by (auto simp: putProducts_def split: option.splits)
  from findIndex_Some[OF k] have kl: "k < length (products s)" by simp
  from assms v i k nc have
    "p' = (products s ! k)\<lparr>p_name := trim name, p_category := trim cat,
            p_price := parseFloat (b_price b),
            p_stock := num_of_parse (parseInt (b_stock b)),
            p_description := (if truthy (b_description b) then b_description b
                              else p_description (products s ! k)),
            p_updatedAt := JStr now\<rparr>"
    and s': "s' = s\<lparr>products := (products s)[k := p']\<rparr>"
    by (auto simp: putProducts_def Let_def split: if_splits)
  then have
    "p_name p' = trim name \<and> p_category p' = trim cat
         \<and> p_price p' = parseFloat (b_price b)
         \<and> p_stock p' = num_of_parse (parseInt (b_stock b))
         \<and> p_updatedAt p' = JStr now
         \<and> p_id p' = p_id (products s ! k) \<and> p_createdAt p' = p_createdAt (products s ! k)
         \<and> (b_description b = JStr [] \<longrightarrow> p_description p' = p_description (products s ! k))
         \<and> (p_description (products s ! k) \<noteq> JStr [] \<longrightarrow> p_description p' \<noteq> JStr [])"
    by auto
  with i k kl nc s' show ?thesis by blast
qed

lemma putProducts_renamePhone:
  "putProducts seed ''2024-03-01T00:00:00.000Z'' ''2'' renamePhone =
     (Inr phoneAfter, seed\<lparr>products := (products seed)[1 := phoneAfter]\<rparr>)"
  by code_simp

theorem put_keeps_description_witness:
  "putProducts seed ''2024-03-01T00:00:00.000Z'' ''2'' renamePhone =
     (Inr phoneAfter, seed\<lparr>products := (products seed)[1 := phoneAfter]\<rparr>)
   \<and> b_description renamePhone = JStr []
   \<and> (\<exists>k. findIndex (hasId 2) (products seed) = Some k
          \<and> p_description phoneAfter = p_description (products seed ! k)
          \<and> p_description phoneAfter \<noteq> JStr [])"
proof -
  have d: "b_description renamePhone = JStr []"
    by (simp add: renamePhone_def emptyBody_def)
  have i: "parseInt_str ''2'' = Some 2" by code_simp
  have n: "p_description phoneAfter \<noteq> JStr []" by (simp add: phoneAfter_def)
  from put_keeps_description[OF putProducts_renamePhone] d i n
  have "\<exists>k. findIndex (hasId 2) (products seed) = Some k
          \<and> p_description phoneAfter = p_description (products seed ! k)
          \<and> p_description phoneAfter \<noteq> JStr []"
    by auto
  with putProducts_renamePhone d show ?thesis by blast
qed

subsection \<open>The id parameter\<close>

lemma requiredText_failure: "requiredText v msg = Inl e \<Longrightarrow> e = InternalError"
  by (cases v) (auto simp: requiredText_def split: if_splits)

lemma validateProduct_failure:
  "validateProduct b = Some e \<Longrightarrow> e = InternalError \<or> (\<exists>errs. e = ValidationFailed errs)"
  by (auto simp: validateProduct_def Let_def split: sum.splits if_splits
      dest: requiredText_failure)

lemma validateProductUpdate_failure:
  "validateProductUpdate b = Some e \<Longrightarrow> \<exists>errs. e = ValidationFailed errs"
  by (auto simp: validateProductUpdate_def Let_def split: if_splits)

text \<open>
  Claim C10. An id parameter that is a run of decimal digits followed by anything that does
  not start with a digit is read as the number its digits denote: each of the five
  id-addressed operations answers as it answers for the digits alone. The answer
  \<open>InvalidProductId\<close> is given only for a parameter in which \<^verbatim>\<open>parseInt\<close> finds no leading
  integer, and the three operations without validation middleware always give it then.
\<close>

theorem id_leading_integer:
  "(ds \<noteq> [] \<and> list_all isDigit ds \<and> (r = [] \<or> \<not> isDigit (hd r)) \<longrightarrow>
      parseInt_str (ds @ r) = Some (int (digitsVal ds))
    \<and> getProduct s (ds @ r) = getProduct s ds
    \<and> putProducts s now (ds @ r) b = putProducts s now ds b
    \<and> patchProducts s now (ds @ r) b = patchProducts s now ds b
    \<and> deleteProducts s (ds @ r) = deleteProducts s ds
    \<and> postStock s now (ds @ r) b = postStock s now ds b)
   \<and> (getProduct s i = Inl InvalidProductId \<longrightarrow> parseInt_str i = None)
   \<and> (fst (putProducts s now i b) = Inl InvalidProductId \<longrightarrow> parseInt_str i = None)
   \<and> (fst (patchProducts s now i b) = Inl InvalidProductId \<longrightarrow> parseInt_str i = None)
   \<and> (fst (deleteProducts s i) = Inl InvalidProductId \<longrightarrow> parseInt_str i = None)
   \<and> (fst (postStock s now i b) = Inl InvalidProductId \<longrightarrow> parseInt_str i = None)
   \<and> (parseInt_str i = None \<longrightarrow>
        getProduct s i = Inl InvalidProductId
      \<and> fst (deleteProducts s i) = Inl InvalidProductId
      \<and> fst (postStock s now i b) = Inl InvalidProductId)"
proof (intro conjI impI)
  assume a: "ds \<noteq> [] \<and> list_all isDigit ds \<and> (r = [] \<or> \<not> isDigit (hd r))"
  then have 1: "parseInt_str (ds @ r) = Some (int (digitsVal ds))"
    by (simp add: parseInt_str_digits)
  from a have 2: "parseInt_str ds = Some (int (digitsVal ds))"
    using parseInt_str_digits[of ds "[]"] by simp
  show "parseInt_str (ds @ r) = Some (int (digitsVal ds))" by (rule 1)
  show "getProduct s (ds @ r) = getProduct s ds" unfolding getProduct_def 1 2 by (rule refl)
  show "putProducts s now (ds @ r) b = putProducts s now ds b" unfolding putProducts_def 1 2 by (rule refl)
  show "patchProducts s now (ds @ r) b = patchProducts s now ds b"
    unfolding patchProducts_def 1 2 by (rule refl)
  show "deleteProducts s (ds @ r) = deleteProducts s ds" unfolding deleteProducts_def 1 2 by (rule refl)
  show "postStock s now (ds @ r) b = postStock s now ds b" unfolding postStock_def 1 2 by (rule refl)
next
  assume "getProduct s i = Inl InvalidProductId"
  then show "parseInt_str i = None"
    by (auto simp: getProduct_def split: option.splits)
next
  assume "fst (putProducts s now i b) = Inl InvalidProductId"
  then show "parseInt_str i = None"
    by (auto simp: putProducts_def Let_def split: option.splits if_splits
        dest: validateProduct_failure)
next
  assume "fst (patchProducts s now i b) = Inl InvalidProductId"
  then show "parseInt_str i = None"
    by (auto simp: patchProducts_def Let_def split: option.splits if_splits
        dest: validateProductUpdate_failure)
next
  assume "fst (deleteProducts s i) = Inl InvalidProductId"
  then show "parseInt_str i = None"
    by (auto simp: deleteProducts_def split: option.splits)
next
  assume "fst (postStock s now i b) = Inl InvalidProductId"
  then show "parseInt_str i = None"
    by (auto simp: postStock_def Let_def split: option.splits if_splits jsval.splits)
next
  assume n: "parseInt_str i = None"
  then show "getProduct s i = Inl InvalidProductId" by (simp add: getProduct_def)
  from n show "fst (deleteProducts s i) = Inl InvalidProductId" by (simp add: deleteProducts_def)
  from n show "fst (postStock s now i b) = Inl InvalidProductId" by (simp add: postStock_def)
qed

theorem id_leading_integer_witness:
  "''3'' \<noteq> [] \<and> list_all isDigit ''3'' \<and> \<not> isDigit (hd ''abc'')
   \<and> parseInt_str ''3abc'' = Some 3
   \<and> getProduct seed ''3abc'' = getProduct seed ''3''
   \<and> putProducts seed servedAt ''3abc'' renamePhone = putProducts seed servedAt ''3'' renamePhone
   \<and> patchProducts seed servedAt ''3abc'' renamePhone = patchProducts seed servedAt ''3'' renamePhone
   \<and> deleteProducts seed ''3abc'' = deleteProducts seed ''3''
   \<and> postStock seed servedAt ''3abc'' renamePhone = postStock seed servedAt ''3'' renamePhone
   \<and> parseInt_str ''abc'' = None
   \<and> getProduct seed ''abc'' = Inl InvalidProductId"
proof -
  have a: "''3'' \<noteq> [] \<and> list_all isDigit ''3'' \<and> (''abc'' = [] \<or> \<not> isDigit (hd ''abc''))"
    by (simp add: isDigit_def code_def)
  have v: "int (digitsVal ''3'') = 3" by (simp add: digitsVal_def digitVal_def code_def)
  have n: "parseInt_str ''abc'' = None" by code_simp
  note th = id_leading_integer[of "''3''" "''abc''" seed servedAt renamePhone "''abc''"]
  from th a v have "parseInt_str ''3abc'' = Some 3
   \<and> getProduct seed ''3abc'' = getProduct seed ''3''
   \<and> putProducts seed servedAt ''3abc'' renamePhone = putProducts seed servedAt ''3'' renamePhone
   \<and> patchProducts seed servedAt ''3abc'' renamePhone = patchProducts seed servedAt ''3'' renamePhone
   \<and> deleteProducts seed ''3abc'' = deleteProducts seed ''3''
   \<and> postStock seed servedAt ''3abc'' renamePhone = postStock seed servedAt ''3'' renamePhone"
    by simp
  moreover from th n have "getProduct seed ''abc'' = Inl InvalidProductId" by blast
  ultimately show ?thesis using a n by simp
qed

subsection \<open>Validation of stock\<close>






subsection \<open>Stock adjustment\<close>

lemma postStock_failure_unchanged:
  "fst (postStock s now idParam b) = Inl e \<Longrightarrow> snd (postStock s now idParam b) = s"
  by (auto simp: postStock_def Let_def split: option.splits if_splits jsval.splits)




subsection \<open>Names and stock at the edges of the conversions\<close>

lemma seed_fields [simp]:
  "products seed = seedProducts" "currentId seed = 5"
  by (simp_all add: seed_def)

lemma parseInt_str_one: "parseInt_str ''1'' = Some 1"
  by code_simp

lemma findIndex_seed_one: "findIndex (hasId 1) seedProducts = Some 0"
  by (simp add: seedProducts_def hasId_def)

lemma spacedLaptop_fields:
  "b_name spacedLaptop = JStr '' Laptop''" "b_category spacedLaptop = JStr ''Electronics''"
  "b_price spacedLaptop = JNum (Fin 10)" "b_stock spacedLaptop = JNum (Fin 1)"
  "b_description spacedLaptop = JUndefined"
  by (simp_all add: spacedLaptop_def emptyBody_def)

lemma spacedLaptop_valid: "validateProduct spacedLaptop = None"
  by code_simp

lemma spacedLaptop_conversions:
  "parseFloat (JNum (Fin 10)) = Fin 10" "parseInt (JNum (Fin 1)) = Some 1"
  "trim '' Laptop'' = ''Laptop''" "trim ''Electronics'' = ''Electronics''"
  "toLowerCase '' Laptop'' = '' laptop''"
  by code_simp+

lemma seed_names: "map (\<lambda>p. toLowerCase (p_name p)) seedProducts
    = [''laptop'', ''smartphone'', ''coffee maker'', ''desk chair'']"
  by (simp add: seedProducts_def toLowerCase_def lowerChar_def)

lemma spacedLaptop_created:
  "postProducts seed servedAt spacedLaptop =
     (Inr \<lparr>p_id = JNum (Fin 5), p_name = ''Laptop'', p_category = ''Electronics'',
           p_price = Fin 10, p_stock = Fin 1, p_description = JStr [],
           p_createdAt = JStr servedAt, p_updatedAt = JNull\<rparr>,
      \<lparr>products = seedProducts @
         [\<lparr>p_id = JNum (Fin 5), p_name = ''Laptop'', p_category = ''Electronics'',
           p_price = Fin 10, p_stock = Fin 1, p_description = JStr [],
           p_createdAt = JStr servedAt, p_updatedAt = JNull\<rparr>],
       currentId = 6\<rparr>)"
proof -
  have "\<not> list_ex (\<lambda>p. toLowerCase (p_name p) = '' laptop'') seedProducts"
    by (simp add: seedProducts_def toLowerCase_def lowerChar_def)
  then show ?thesis
    by (simp add: postProducts_def spacedLaptop_valid spacedLaptop_fields
        spacedLaptop_conversions Let_def generateId_def num_of_parse_def seed_def)
qed

text \<open>
  Claim C1 does not hold of the code. The creation handler compares the name as supplied
  with the stored names and then stores the trimmed name: the name \<^verbatim>\<open>Laptop\<close> after a
  space passes the check against the seed catalog, and the new record 5 has the name of
  record 1.
\<close>

theorem create_duplicates_trimmed_name:
  "namesUnique (products seed)
   \<and> \<not> isl (fst (postProducts seed servedAt spacedLaptop))
   \<and> map p_name (products (snd (postProducts seed servedAt spacedLaptop)))
       = [''Laptop'', ''Smartphone'', ''Coffee Maker'', ''Desk Chair'', ''Laptop'']
   \<and> \<not> namesUnique (products (snd (postProducts seed servedAt spacedLaptop)))"
proof -
  have "namesUnique (products seed)"
    by (simp add: namesUnique_def seed_names)
  moreover have "\<not> isl (fst (postProducts seed servedAt spacedLaptop))"
    by (simp add: spacedLaptop_created)
  moreover have "map p_name (products (snd (postProducts seed servedAt spacedLaptop)))
       = [''Laptop'', ''Smartphone'', ''Coffee Maker'', ''Desk Chair'', ''Laptop'']"
    by (simp add: spacedLaptop_created) (simp add: seedProducts_def)
  moreover have "\<not> namesUnique (products (snd (postProducts seed servedAt spacedLaptop)))"
    by (simp add: spacedLaptop_created namesUnique_def seed_names)
       (simp add: toLowerCase_def lowerChar_def)
  ultimately show ?thesis by blast
qed

lemma nullStock_fields:
  "b_id nullStock = JUndefined" "b_name nullStock = JUndefined"
  "b_category nullStock = JUndefined" "b_price nullStock = JUndefined"
  "b_stock nullStock = JNull" "b_description nullStock = JUndefined"
  "b_createdAt nullStock = JUndefined"
  by (simp_all add: nullStock_def emptyBody_def)

lemma nullStock_valid: "validateProductUpdate nullStock = None"
  by code_simp

lemma parseInt_null: "parseInt JNull = None"
  by code_simp

lemma nullStock_patched:
  "patchProducts seed servedAt ''1'' nullStock =
     (Inr ((seedProducts ! 0)\<lparr>p_stock := NaN, p_updatedAt := JStr servedAt\<rparr>),
      \<lparr>products = seedProducts[0 := (seedProducts ! 0)\<lparr>p_stock := NaN, p_updatedAt := JStr servedAt\<rparr>],
       currentId = 5\<rparr>)"
  by (simp add: patchProducts_def nullStock_valid parseInt_str_one findIndex_seed_one
      nullStock_fields parseInt_null Let_def num_of_parse_def seed_def)
     (simp add: seedProducts_def)

lemma subtract_conversions:
  "parseInt (JNum (Fin 5)) = Some 5"
  "toLowerCase ''subtract'' = ''subtract''"
  by code_simp+

lemma sextillion_digits: "decimal 1000000000000000000000 = ''1000000000000000000000''"
  by (simp add: decimal.simps digitChar_def)

lemma sextillion_string: "numberToString (Fin 1000000000000000000000) = ''1e+21''"
  by (simp add: positiveToString_def integerToString_def sextillion_digits exponential_def
      stripTrailingZeros_def Let_def decimal.simps digitChar_def)

lemma sextillion_parse: "parseInt (JNum (Fin 1000000000000000000000)) = Some 1"
  unfolding parseInt_def ToString.simps sextillion_string by code_simp

lemma subtract_fields:
  "b_operation subtractFive = JStr ''subtract''" "b_quantity subtractFive = JNum (Fin 5)"
  "b_operation subtractSextillion = JStr ''subtract''"
  "b_quantity subtractSextillion = JNum (Fin 1000000000000000000000)"
  by (simp_all add: subtractFive_def subtractSextillion_def emptyBody_def)

text \<open>
  Claim C2 does not hold of the code. The update validator accepts a \<open>stock\<close> of \<^verbatim>\<open>null\<close>,
  which \<^verbatim>\<open>Number\<close> reads as 0, and the handler stores \<^verbatim>\<open>parseInt(null)\<close>, which is \<^verbatim>\<open>NaN\<close>:
  the stock of record 1 is then not \<open>\<ge> 0\<close>. A later subtraction is not rejected, because
  \<^verbatim>\<open>NaN < 5\<close> is false, and leaves \<^verbatim>\<open>NaN\<close>.
\<close>

theorem patch_null_stock_is_NaN:
  "\<not> isl (fst (patchProducts seed servedAt ''1'' nullStock))
   \<and> map p_stock (products (snd (patchProducts seed servedAt ''1'' nullStock)))
       = [NaN, Fin 25, Fin 40, Fin 8]
   \<and> \<not> num_ge NaN (Fin 0)
   \<and> \<not> isl (fst (postStock (snd (patchProducts seed servedAt ''1'' nullStock)) servedAt ''1''
               subtractFive))
   \<and> map p_stock (products (snd (postStock (snd (patchProducts seed servedAt ''1'' nullStock))
               servedAt ''1'' subtractFive)))
       = [NaN, Fin 25, Fin 40, Fin 8]"
proof -
  let ?s1 = "snd (patchProducts seed servedAt ''1'' nullStock)"
  have s1: "?s1 = \<lparr>products = seedProducts[0 := (seedProducts ! 0)\<lparr>p_stock := NaN, p_updatedAt := JStr servedAt\<rparr>],
       currentId = 5\<rparr>"
    by (simp add: nullStock_patched)
  have f: "findIndex (hasId 1) (products ?s1) = Some 0"
    unfolding s1 by (simp add: seedProducts_def hasId_def)
  have p: "p_stock (products ?s1 ! 0) = NaN"
    unfolding s1 by (simp add: seedProducts_def)
  have "\<not> isl (fst (patchProducts seed servedAt ''1'' nullStock))"
    by (simp add: nullStock_patched)
  moreover have "map p_stock (products ?s1) = [NaN, Fin 25, Fin 40, Fin 8]"
    unfolding s1 by (simp add: seedProducts_def)
  moreover have "\<not> num_ge NaN (Fin 0)"
    by (simp add: num_ge_def num_le_def)
  moreover have "\<not> isl (fst (postStock ?s1 servedAt ''1'' subtractFive))"
    using f p
    by (simp add: postStock_def parseInt_str_one subtract_fields subtract_conversions Let_def)
  moreover have "map p_stock (products (snd (postStock ?s1 servedAt ''1'' subtractFive)))
       = [NaN, Fin 25, Fin 40, Fin 8]"
    using f p
    by (simp add: postStock_def parseInt_str_one subtract_fields subtract_conversions Let_def
        num_sub_def)
       (simp add: s1 seedProducts_def)
  ultimately show ?thesis by blast
qed

theorem patch_null_stock_is_NaN_witness:
  "map p_stock (products (snd (postStock (snd (patchProducts seed servedAt ''1'' nullStock))
               servedAt ''1'' subtractFive)))
       = [NaN, Fin 25, Fin 40, Fin 8]"
  using patch_null_stock_is_NaN by blast

text \<open>
  Claim C6 does not hold of the code. The quantity \<^verbatim>\<open>1e21\<close> is a positive integer above the
  stock 15 of record 1, but \<^verbatim>\<open>parseInt\<close> reads its string form \<^verbatim>\<open>1e+21\<close> as 1: the request
  is not rejected and the stock becomes 14.
\<close>

theorem subtract_sextillion_takes_one:
  "p_stock (products seed ! 0) = Fin 15 \<and> num_lt (Fin 15) (Fin (10 ^ 21))
   \<and> b_quantity subtractSextillion = JNum (Fin (10 ^ 21))
   \<and> ToString (b_quantity subtractSextillion) = ''1e+21''
   \<and> \<not> isl (fst (postStock seed servedAt ''1'' subtractSextillion))
   \<and> map p_stock (products (snd (postStock seed servedAt ''1'' subtractSextillion)))
       = [Fin 14, Fin 25, Fin 40, Fin 8]"
proof -
  have p: "p_stock (seedProducts ! 0) = Fin 15" by (simp add: seedProducts_def)
  have q: "parseInt (b_quantity subtractSextillion) = Some 1"
    unfolding subtract_fields by (rule sextillion_parse)
  have t: "truthy (b_operation subtractSextillion)" "b_quantity subtractSextillion \<noteq> JUndefined"
    "b_quantity subtractSextillion \<noteq> JNull"
    by (simp_all add: subtract_fields)
  have r: "postStock seed servedAt ''1'' subtractSextillion =
     (Inr ((seedProducts ! 0)\<lparr>p_stock := Fin 14, p_updatedAt := JStr servedAt\<rparr>),
      seed\<lparr>products :=
        seedProducts[0 := (seedProducts ! 0)\<lparr>p_stock := Fin 14, p_updatedAt := JStr servedAt\<rparr>]\<rparr>)"
    unfolding postStock_def parseInt_str_one q subtract_fields(3)
    by (simp add: t findIndex_seed_one subtract_conversions Let_def num_sub_def p)
  have "p_stock (products seed ! 0) = Fin 15" using p by simp
  moreover have "num_lt (Fin 15) (Fin (10 ^ 21))" by simp
  moreover have "b_quantity subtractSextillion = JNum (Fin (10 ^ 21))"
    by (simp add: subtract_fields)
  moreover have "ToString (b_quantity subtractSextillion) = ''1e+21''"
    unfolding subtract_fields ToString.simps by (rule sextillion_string)
  moreover have "\<not> isl (fst (postStock seed servedAt ''1'' subtractSextillion))"
    by (simp add: r)
  moreover have "map p_stock (products (snd (postStock seed servedAt ''1'' subtractSextillion)))
       = [Fin 14, Fin 25, Fin 40, Fin 8]"
    by (simp add: r) (simp add: seedProducts_def)
  ultimately show ?thesis by blast
qed

theorem subtract_sextillion_takes_one_witness:
  "map p_stock (products (snd (postStock seed servedAt ''1'' subtractSextillion)))
       = [Fin 14, Fin 25, Fin 40, Fin 8]"
  using subtract_sextillion_takes_one by blast

subsection \<open>Further properties of the handlers\<close>

lemma decimal_length: "0 < k \<Longrightarrow> n < 10 ^ k \<Longrightarrow> length (decimal n) \<le> k"
proof (induction n arbitrary: k rule: decimal.induct)
  case (1 n)
  show ?case
  proof (cases "n < 10")
    case True
    with 1(2) show ?thesis by (subst decimal.simps) simp
  next
    case False
    with 1(2,3) have k: "1 < k" by (cases "k = 1") auto
    then obtain k' where k': "k = Suc k'" "0 < k'" by (cases k) auto
    with 1(3) have "n div 10 < 10 ^ k'" by (simp add: less_mult_imp_div_less mult.commute)
    with 1(1)[OF False k'(2)] have "length (decimal (n div 10)) \<le> k'" by simp
    with False k' show ?thesis by (subst decimal.simps) simp
  qed
qed

lemma numberToString_nat:
  assumes "0 < n" "n < 10 ^ 21"
  shows "numberToString (Fin (of_nat n)) = decimal n"
proof -
  have "length (decimal n) \<le> 21" using decimal_length[of 21 n] assms by simp
  then have "integerToString n = decimal n" by (simp add: integerToString_def Let_def)
  moreover have "positiveToString (of_nat n) = integerToString n"
    by (simp add: positiveToString_def Let_def)
  ultimately show ?thesis using assms(1) by simp
qed

lemma parseInt_number:
  assumes "0 < n" "n < 10 ^ 21"
  shows "parseInt (JNum (Fin (of_nat n))) = Some (int n)"
proof -
  have "ToString (JNum (Fin (of_nat n))) = decimal n"
    unfolding ToString.simps by (rule numberToString_nat[OF assms])
  then show ?thesis by (simp only: parseInt_def parseInt_str_decimal)
qed

lemma toLowerCase_nonempty: "toLowerCase t = c # cs \<Longrightarrow> t \<noteq> []"
  by (auto simp: toLowerCase_def)

text \<open>
  A subtraction above the stock is refused whole. Let the id parameter have a leading
  integer and the product exist, let the operation be \<^verbatim>\<open>subtract\<close> in any letter case, and
  let the quantity be a positive integer \<open>q\<close>, given as a number below \<open>10\<^sup>2\<^sup>1\<close> or as its
  decimal string. When the stock is below \<open>q\<close>, the answer is \<open>InsufficientStock\<close> with the
  stock and \<open>q\<close>, and the catalog, \<open>updatedAt\<close> included, is as it was.
\<close>

theorem insufficient_stock_rejected:
  assumes "parseInt_str idParam = Some i"
    and "findIndex (hasId i) (products s) = Some j"
    and "b_operation b = JStr operation" and "toLowerCase operation = ''subtract''"
    and "0 < q"
    and "(b_quantity b = JNum (Fin (of_nat q)) \<and> q < 10 ^ 21) \<or> b_quantity b = JStr (decimal q)"
    and "num_lt (p_stock (products s ! j)) (Fin (of_nat q))"
  shows "postStock s now idParam b =
           (Inl (InsufficientStock (p_stock (products s ! j)) (Fin (of_nat q))), s)"
proof -
  from assms(4) have ne: "operation \<noteq> []" by (auto dest: toLowerCase_nonempty)
  from assms(5,6) have q: "parseInt (b_quantity b) = Some (int q)"
    by (auto simp: parseInt_number) (simp add: parseInt_def parseInt_str_decimal)
  from assms(6) have d: "b_quantity b \<noteq> JUndefined" "b_quantity b \<noteq> JNull" by auto
  have na: "toLowerCase operation \<noteq> ''add''" using assms(4) by simp
  show ?thesis
    unfolding postStock_def assms(1) q assms(3)
    using ne d assms(2,4,5,7) na by (simp add: Let_def)
qed

theorem insufficient_stock_rejected_witness:
  "parseInt_str ''1'' = Some 1 \<and> findIndex (hasId 1) (products seed) = Some 0
   \<and> b_operation subtractHundred = JStr ''subtract'' \<and> b_quantity subtractHundred = JNum (Fin 100)
   \<and> p_stock (products seed ! 0) = Fin 15
   \<and> postStock seed servedAt ''1'' subtractHundred = (Inl (InsufficientStock (Fin 15) (Fin 100)), seed)"
proof -
  have f: "findIndex (hasId 1) (products seed) = Some 0" by (simp add: findIndex_seed_one)
  have o: "b_operation subtractHundred = JStr ''subtract''"
    by (simp add: subtractHundred_def emptyBody_def)
  have qn: "b_quantity subtractHundred = JNum (Fin 100)"
    by (simp add: subtractHundred_def emptyBody_def)
  have q: "(b_quantity subtractHundred = JNum (Fin (of_nat 100)) \<and> (100::nat) < 10 ^ 21)
           \<or> b_quantity subtractHundred = JStr (decimal 100)"
    by (simp add: qn)
  have p: "p_stock (products seed ! 0) = Fin 15" by (simp add: seedProducts_def)
  have l: "num_lt (p_stock (products seed ! 0)) (Fin (of_nat 100))" using p by simp
  from insufficient_stock_rejected[OF parseInt_str_one f o subtract_conversions(2) _ q l, of servedAt]
  have "postStock seed servedAt ''1'' subtractHundred
          = (Inl (InsufficientStock (Fin 15) (Fin 100)), seed)"
    using p by simp
  with parseInt_str_one f o qn p show ?thesis by blast
qed

lemma putProducts_failure_unchanged:
  "fst (putProducts s now i b) = Inl e \<Longrightarrow> snd (putProducts s now i b) = s"
  by (auto simp: putProducts_def Let_def split: option.splits if_splits)

lemma patchProducts_failure_unchanged:
  "fst (patchProducts s now i b) = Inl e \<Longrightarrow> snd (patchProducts s now i b) = s"
  by (auto simp: patchProducts_def Let_def split: option.splits if_splits)

lemma deleteProducts_failure_unchanged:
  "fst (deleteProducts s i) = Inl e \<Longrightarrow> snd (deleteProducts s i) = s"
  by (auto simp: deleteProducts_def split: option.splits)

lemma postProducts_failure_unchanged:
  "fst (postProducts s now b) = Inl e \<Longrightarrow> snd (postProducts s now b) = s"
  by (cases "postProducts s now b") (auto dest: postProducts_Inl)

text \<open>
  Every failure is detected before any write: a request that is answered with a failure
  leaves the catalog and the id counter as they were.
\<close>

theorem failure_leaves_catalog:
  "fst (handle s r) = Inl e \<Longrightarrow> snd (handle s r) = s"
proof (cases r)
  case (Pair now req)
  assume a: "fst (handle s r) = Inl e"
  show ?thesis
  proof (cases req)
    case (GetList q)
    with Pair show ?thesis by simp
  next
    case (GetOne i)
    with Pair show ?thesis by simp
  next
    case (Create b)
    with Pair a have "\<exists>e'. fst (postProducts s now b) = Inl e'"
      by (cases "fst (postProducts s now b)") (auto simp: withProduct_def)
    with Pair Create show ?thesis
      by (auto simp: withProduct_def dest: postProducts_failure_unchanged)
  next
    case (Put i b)
    with Pair a have "\<exists>e'. fst (putProducts s now i b) = Inl e'"
      by (cases "fst (putProducts s now i b)") (auto simp: withProduct_def)
    with Pair Put show ?thesis
      by (auto simp: withProduct_def dest: putProducts_failure_unchanged)
  next
    case (Patch i b)
    with Pair a have "\<exists>e'. fst (patchProducts s now i b) = Inl e'"
      by (cases "fst (patchProducts s now i b)") (auto simp: withProduct_def)
    with Pair Patch show ?thesis
      by (auto simp: withProduct_def dest: patchProducts_failure_unchanged)
  next
    case (Delete i)
    with Pair a have "\<exists>e'. fst (deleteProducts s i) = Inl e'"
      by (cases "fst (deleteProducts s i)") (auto simp: withProduct_def)
    with Pair Delete show ?thesis
      by (auto simp: withProduct_def dest: deleteProducts_failure_unchanged)
  next
    case (Stock i b)
    with Pair a have "\<exists>e'. fst (postStock s now i b) = Inl e'"
      by (cases "fst (postStock s now i b)") (auto simp: withProduct_def)
    with Pair Stock show ?thesis
      by (auto simp: withProduct_def dest: postStock_failure_unchanged)
  qed
qed

lemma subtractHundred_refused:
  "postStock seed servedAt ''1'' subtractHundred
     = (Inl (InsufficientStock (Fin 15) (Fin 100)), seed)"
proof -
  have q: "parseInt (JNum (Fin 100)) = Some 100" by code_simp
  have p: "p_stock (seedProducts ! 0) = Fin 15" by (simp add: seedProducts_def)
  show ?thesis
    by (simp add: postStock_def parseInt_str_one subtractHundred_def emptyBody_def q
        findIndex_seed_one subtract_conversions Let_def p)
qed

theorem failure_leaves_catalog_witness:
  "fst (handle seed (servedAt, Stock ''1'' subtractHundred))
     = Inl (InsufficientStock (Fin 15) (Fin 100))
   \<and> snd (handle seed (servedAt, Stock ''1'' subtractHundred)) = seed"
proof -
  have r: "postStock seed servedAt ''1'' subtractHundred
          = (Inl (InsufficientStock (Fin 15) (Fin 100)), seed)"
    by (rule subtractHundred_refused)
  then have f: "fst (handle seed (servedAt, Stock ''1'' subtractHundred))
     = Inl (InsufficientStock (Fin 15) (Fin 100))"
    by (simp add: withProduct_def)
  from failure_leaves_catalog[OF f] f show ?thesis by blast
qed

lemma idFive_fields:
  "b_id idFive = JNum (Fin 5)" "b_name idFive = JUndefined" "b_category idFive = JUndefined"
  "b_price idFive = JUndefined" "b_stock idFive = JUndefined"
  "b_description idFive = JUndefined" "b_createdAt idFive = JUndefined"
  by (simp_all add: idFive_def emptyBody_def)

lemma tablet_fields:
  "b_name tablet = JStr ''Tablet''" "b_category tablet = JStr ''Electronics''"
  "b_price tablet = JNum (Fin 300)" "b_stock tablet = JNum (Fin 7)"
  "b_description tablet = JUndefined"
  by (simp_all add: tablet_def emptyBody_def)

lemma tablet_conversions:
  "parseFloat (JNum (Fin 300)) = Fin 300" "parseInt (JNum (Fin 7)) = Some 7"
  "trim ''Tablet'' = ''Tablet''" "trim ''Electronics'' = ''Electronics''"
  "toLowerCase ''Tablet'' = ''tablet''"
  by code_simp+

lemma idFive_patched:
  "patchProducts seed servedAt ''1'' idFive =
     (Inr ((seedProducts ! 0)\<lparr>p_id := JNum (Fin 5), p_updatedAt := JStr servedAt\<rparr>),
      \<lparr>products = seedProducts[0 := (seedProducts ! 0)\<lparr>p_id := JNum (Fin 5), p_updatedAt := JStr servedAt\<rparr>],
       currentId = 5\<rparr>)"
proof -
  have v: "validateProductUpdate idFive = None" by code_simp
  show ?thesis
    by (simp add: patchProducts_def v parseInt_str_one findIndex_seed_one idFive_fields
        Let_def seed_def)
       (simp add: seedProducts_def)
qed

lemma tablet_created:
  assumes "products s = seedProducts[0 := (seedProducts ! 0)\<lparr>p_id := JNum (Fin 5), p_updatedAt := JStr servedAt\<rparr>]"
    and "currentId s = 5"
  shows "map p_id (products (snd (postProducts s servedAt tablet)))
           = [JNum (Fin 5), JNum (Fin 2), JNum (Fin 3), JNum (Fin 4), JNum (Fin 5)]
         \<and> map p_id (case fst (postProducts s servedAt tablet) of Inl e \<Rightarrow> [] | Inr p \<Rightarrow> [p])
           = [JNum (Fin 5)]"
proof -
  have v: "validateProduct tablet = None" by code_simp
  have n: "\<not> list_ex (\<lambda>p. toLowerCase (p_name p) = ''tablet'') (products s)"
    unfolding assms(1) by (simp add: seedProducts_def toLowerCase_def lowerChar_def)
  show ?thesis
    using n
    by (simp add: postProducts_def v tablet_fields tablet_conversions Let_def generateId_def
        num_of_parse_def assms)
       (simp add: seedProducts_def)
qed

text \<open>
  The partial update has no list of allowed fields: a body with an \<open>id\<close> key replaces the id
  of the record. After record 1 of the seed catalog has been given the id 5 in this way,
  the next creation returns the id 5 as well, and two live records carry it.
\<close>

theorem patch_overwrites_id:
  "map p_id (products (run seed [(servedAt, Patch ''1'' idFive), (servedAt, Create tablet)]))
     = [JNum (Fin 5), JNum (Fin 2), JNum (Fin 3), JNum (Fin 4), JNum (Fin 5)]
   \<and> createdIds seed [(servedAt, Patch ''1'' idFive), (servedAt, Create tablet)] = [JNum (Fin 5)]"
proof -
  let ?s1 = "snd (patchProducts seed servedAt ''1'' idFive)"
  have p: "products ?s1 = seedProducts[0 := (seedProducts ! 0)\<lparr>p_id := JNum (Fin 5), p_updatedAt := JStr servedAt\<rparr>]"
    and c: "currentId ?s1 = 5"
    by (simp_all add: idFive_patched)
  note t = tablet_created[OF p c]
  have "map p_id (products (run seed [(servedAt, Patch ''1'' idFive), (servedAt, Create tablet)]))
     = [JNum (Fin 5), JNum (Fin 2), JNum (Fin 3), JNum (Fin 4), JNum (Fin 5)]"
    using t by (simp add: withProduct_def)
  moreover have "createdIds seed [(servedAt, Patch ''1'' idFive), (servedAt, Create tablet)]
      = [JNum (Fin 5)]"
    using t
    by (cases "postProducts ?s1 servedAt tablet")
       (auto simp: withProduct_def split: sum.splits)
  ultimately show ?thesis by blast
qed

end
